theory Spec2Isabelle
  imports Complex_Main "HOL-Library.Multiset"
begin

section \<open>Python values and exceptions\<close>

text \<open>
  The values the backend passes around are the values of Python's \<open>json\<close> module: a
  decoded JSON document is \<open>None\<close>, a bool, an int, a float, a str, a list or a dict with
  string keys. A float is kept as the lexeme it was read from. A dict is an association
  list in insertion order; \<open>dict_set\<close> keeps the position of a key that is already there,
  as Python's dict does.
\<close>

datatype pyval =
    PNone
  | PBool bool
  | PInt int
  | PFloat string
  | PStr string
  | PList "pyval list"
  | PDict "(string \<times> pyval) list"

text \<open>
  The exceptions the code tells apart: \<open>json.JSONDecodeError\<close>, \<open>httpx.HTTPStatusError\<close>
  (status code and \<open>str(e)\<close>), every other subclass of \<open>Exception\<close> (with its
  \<open>str(e)\<close>), and \<open>asyncio.CancelledError\<close>, which derives from \<open>BaseException\<close> and so
  passes through every \<open>except Exception\<close> clause.
\<close>

datatype exn =
    JSONDecodeError string
  | HTTPStatusError nat string
  | PyException string
  | CancelledError

fun is_Exception :: "exn \<Rightarrow> bool" where
  "is_Exception CancelledError = False"
| "is_Exception _ = True"

section \<open>Decimal numerals and base64\<close>

fun digit_char :: "nat \<Rightarrow> char" where
  "digit_char n = char_of (48 + n)"

fun str_nat :: "nat \<Rightarrow> string" where
  "str_nat n = (if n < 10 then [digit_char n] else str_nat (n div 10) @ [digit_char (n mod 10)])"

declare str_nat.simps [simp del]

definition b64_alphabet :: string where
  "b64_alphabet = ''ABCDEFGHIJKLMNOPQRSTUVWXYZabcdefghijklmnopqrstuvwxyz0123456789+/''"

definition b64_char :: "nat \<Rightarrow> char" where
  "b64_char n = b64_alphabet ! (n mod 64)"

fun b64_groups :: "nat list \<Rightarrow> string" where
  "b64_groups [] = []"
| "b64_groups [a] =
     [b64_char (a div 4), b64_char (a mod 4 * 16), CHR ''='', CHR ''='']"
| "b64_groups [a, b] =
     [b64_char (a div 4), b64_char (a mod 4 * 16 + b div 16), b64_char (b mod 16 * 4),
      CHR ''='']"
| "b64_groups (a # b # c # rest) =
     [b64_char (a div 4), b64_char (a mod 4 * 16 + b div 16),
      b64_char (b mod 16 * 4 + c div 64), b64_char (c mod 64)] @ b64_groups rest"

definition b64encode :: "string \<Rightarrow> string" where
  "b64encode bytes = b64_groups (map of_char bytes)"

definition data_url :: "string \<Rightarrow> string" where
  "data_url bytes = ''data:image/png;base64,'' @ b64encode bytes"

section \<open>Strings\<close>

fun startswith :: "string \<Rightarrow> string \<Rightarrow> bool" where
  "startswith s [] = True"
| "startswith [] (p # ps) = False"
| "startswith (c # cs) (p # ps) = (c = p \<and> startswith cs ps)"

fun contains :: "string \<Rightarrow> string \<Rightarrow> bool" where
  "contains [] sub = (sub = [])"
| "contains (c # cs) sub = (startswith (c # cs) sub \<or> contains cs sub)"

fun dict_set :: "string \<Rightarrow> pyval \<Rightarrow> (string \<times> pyval) list \<Rightarrow> (string \<times> pyval) list" where
  "dict_set k v [] = [(k, v)]"
| "dict_set k v ((k', v') # kvs) =
     (if k = k' then (k, v) # kvs else (k', v') # dict_set k v kvs)"

section \<open>json.loads\<close>

datatype 'a scan = Scanned 'a string | ScanError string string | Overflow

definition json_ws :: "char \<Rightarrow> bool" where
  "json_ws c = (c = CHR '' '' \<or> c = CHR 0x09 \<or> c = CHR 0x0A \<or> c = CHR 0x0D)"

definition skip_ws :: "string \<Rightarrow> string" where
  "skip_ws s = dropWhile json_ws s"

definition is_digit :: "char \<Rightarrow> bool" where
  "is_digit c = (48 \<le> (of_char c :: nat) \<and> (of_char c :: nat) \<le> 57)"

definition hex_val :: "char \<Rightarrow> nat option" where
  "hex_val c =
     (let n = (of_char c :: nat) in
      if 48 \<le> n \<and> n \<le> 57 then Some (n - 48)
      else if 97 \<le> n \<and> n \<le> 102 then Some (n - 87)
      else if 65 \<le> n \<and> n \<le> 70 then Some (n - 55)
      else None)"

definition decode_uXXXX :: "string \<Rightarrow> nat option" where
  "decode_uXXXX s =
     (case map hex_val (take 4 s) of
        [Some a, Some b, Some c, Some d] \<Rightarrow> Some (((a * 16 + b) * 16 + c) * 16 + d)
      | _ \<Rightarrow> None)"

definition simple_escape :: "char \<Rightarrow> char option" where
  "simple_escape c =
     (if c = CHR ''\"'' then Some CHR ''\"''
      else if c = CHR 0x5C then Some (CHR 0x5C)
      else if c = CHR ''/'' then Some CHR ''/''
      else if c = CHR ''b'' then Some (CHR 0x08)
      else if c = CHR ''f'' then Some (CHR 0x0C)
      else if c = CHR ''n'' then Some (CHR 0x0A)
      else if c = CHR ''r'' then Some (CHR 0x0D)
      else if c = CHR ''t'' then Some (CHR 0x09)
      else None)"

text \<open>begin: the input from the opening quote; acc: decoded so far.\<close>

fun scanstring :: "string \<Rightarrow> string \<Rightarrow> string \<Rightarrow> string scan" where
  "scanstring begin acc [] = ScanError ''Unterminated string starting at'' begin"
| "scanstring begin acc (c # r) =
     (if c = CHR ''\"'' then Scanned acc r
      else if c = CHR 0x5C then
        (case r of
           [] \<Rightarrow> ScanError ''Unterminated string starting at'' begin
         | e # r' \<Rightarrow>
             if e = CHR ''u'' then
               (case decode_uXXXX r' of
                  None \<Rightarrow> ScanError (''Invalid '' @ [CHR 0x5C] @ ''uXXXX escape'') r
                | Some n \<Rightarrow>
                    scanstring begin
                      (acc @ (if n < 256 then [char_of n] else CHR 0x5C # CHR ''u'' # take 4 r'))
                      (drop 4 r'))
             else
               (case simple_escape e of
                  None \<Rightarrow> ScanError (''Invalid '' @ [CHR 0x5C] @ ''escape'') (c # r)
                | Some d \<Rightarrow> scanstring begin (acc @ [d]) r'))
      else if of_char c < (32 :: nat) then ScanError ''Invalid control character at'' (c # r)
      else scanstring begin (acc @ [c]) r)"

text \<open>NUMBER_RE\<close>

definition scan_number :: "string \<Rightarrow> pyval scan option" where
  "scan_number s =
     (let (sign, s1) = (if startswith s ''-'' then (''-'', tl s) else ('''', s));
          digits = takeWhile is_digit s1
      in if digits = [] then None
         else
           (let int_part = (if hd digits = CHR ''0'' then ''0'' else digits);
                s2 = drop (length int_part) s1;
                frac_digits = (if startswith s2 ''.'' then takeWhile is_digit (tl s2) else []);
                frac = (if frac_digits = [] then [] else CHR ''.'' # frac_digits);
                s3 = drop (length frac) s2;
                e1 = (if s3 \<noteq> [] \<and> (hd s3 = CHR ''e'' \<or> hd s3 = CHR ''E'') then tl s3 else []);
                esign = (if e1 \<noteq> [] \<and> (hd e1 = CHR ''+'' \<or> hd e1 = CHR ''-'') then [hd e1] else []);
                edigits = (if s3 \<noteq> [] \<and> (hd s3 = CHR ''e'' \<or> hd s3 = CHR ''E'')
                           then takeWhile is_digit (drop (length esign) e1) else []);
                expo = (if edigits = [] then [] else hd s3 # esign @ edigits);
                rest = drop (length expo) s3
            in Some (if frac = [] \<and> expo = []
                     then Scanned (PInt ((if sign = [] then 1 else - 1)
                                     * int (foldl (\<lambda>a c. a * 10 + (of_char c - 48)) 0 int_part))) rest
                     else Scanned (PFloat (sign @ int_part @ frac @ expo)) rest)))"

fun scan_once :: "nat \<Rightarrow> string \<Rightarrow> pyval scan"
  and parse_members :: "nat \<Rightarrow> (string \<times> pyval) list \<Rightarrow> string \<Rightarrow> string \<Rightarrow> pyval scan"
  and parse_items :: "nat \<Rightarrow> pyval list \<Rightarrow> string \<Rightarrow> pyval scan"
where
  "scan_once 0 s = Overflow"
| "scan_once (Suc n) s =
     (case s of
        [] \<Rightarrow> ScanError ''Expecting value'' s
      | c # r \<Rightarrow>
          if c = CHR ''\"'' then
            (case scanstring s [] r of
               Scanned str rest \<Rightarrow> Scanned (PStr str) rest
             | ScanError m w \<Rightarrow> ScanError m w
             | Overflow \<Rightarrow> Overflow)
          else if c = CHR ''{'' then
            (let r1 = skip_ws r in
             if startswith r1 ''}'' then Scanned (PDict []) (tl r1)
             else if \<not> startswith r1 ''\"'' then
               ScanError ''Expecting property name enclosed in double quotes'' r1
             else parse_members n [] r1 (tl r1))
          else if c = CHR ''['' then
            (let r1 = skip_ws r in
             if startswith r1 '']'' then Scanned (PList []) (tl r1)
             else parse_items n [] r1)
          else if startswith s ''null'' then Scanned PNone (drop 4 s)
          else if startswith s ''true'' then Scanned (PBool True) (drop 4 s)
          else if startswith s ''false'' then Scanned (PBool False) (drop 5 s)
          else
            (case scan_number s of
               Some res \<Rightarrow> res
             | None \<Rightarrow>
                 if startswith s ''NaN'' then Scanned (PFloat ''NaN'') (drop 3 s)
                 else if startswith s ''Infinity'' then Scanned (PFloat ''Infinity'') (drop 8 s)
                 else if startswith s ''-Infinity'' then Scanned (PFloat ''-Infinity'') (drop 9 s)
                 else ScanError ''Expecting value'' s))"
| "parse_members 0 pairs quote s = Overflow"
| "parse_members (Suc n) pairs quote s =
     (case scanstring quote [] s of
        ScanError m w \<Rightarrow> ScanError m w
      | Overflow \<Rightarrow> Overflow
      | Scanned key r \<Rightarrow>
          (let r1 = skip_ws r in
           if \<not> startswith r1 '':'' then ScanError (''Expecting '' @ [CHR 0x27] @ '':'' @ [CHR 0x27] @ '' delimiter'') r1
           else
             (case scan_once n (skip_ws (tl r1)) of
                ScanError m w \<Rightarrow> ScanError m w
              | Overflow \<Rightarrow> Overflow
              | Scanned v r4 \<Rightarrow>
                  (let pairs' = dict_set key v pairs; r5 = skip_ws r4 in
                   if startswith r5 ''}'' then Scanned (PDict pairs') (tl r5)
                   else if \<not> startswith r5 '','' then ScanError (''Expecting '' @ [CHR 0x27] @ '','' @ [CHR 0x27] @ '' delimiter'') r5
                   else
                     (let r6 = skip_ws (tl r5) in
                      if \<not> startswith r6 ''\"'' then
                        ScanError ''Expecting property name enclosed in double quotes'' r6
                      else parse_members n pairs' r6 (tl r6))))))"
| "parse_items 0 vals s = Overflow"
| "parse_items (Suc n) vals s =
     (case scan_once n s of
        ScanError m w \<Rightarrow> ScanError m w
      | Overflow \<Rightarrow> Overflow
      | Scanned v r \<Rightarrow>
          (let r1 = skip_ws r in
           if startswith r1 '']'' then Scanned (PList (vals @ [v])) (tl r1)
           else if \<not> startswith r1 '','' then ScanError (''Expecting '' @ [CHR 0x27] @ '','' @ [CHR 0x27] @ '' delimiter'') r1
           else parse_items n (vals @ [v]) (skip_ws (tl r1))))"

text \<open>str(e) of a JSONDecodeError: msg: line L column C (char P)\<close>

definition errmsg :: "string \<Rightarrow> string \<Rightarrow> nat \<Rightarrow> string" where
  "errmsg msg doc pos =
     (let head_part = take pos doc;
          lineno = length (filter (\<lambda>c. c = CHR 0x0A) head_part) + 1;
          colno = length (takeWhile (\<lambda>c. c \<noteq> CHR 0x0A) (rev head_part)) + 1
      in msg @ '': line '' @ str_nat lineno @ '' column '' @ str_nat colno
           @ '' (char '' @ str_nat pos @ '')'')"

definition json_loads :: "string \<Rightarrow> exn + pyval" where
  "json_loads s =
     (case scan_once (Suc (length s)) (skip_ws s) of
        Overflow \<Rightarrow> Inl (PyException ''maximum recursion depth exceeded'')
      | ScanError m w \<Rightarrow> Inl (JSONDecodeError (errmsg m s (length s - length w)))
      | Scanned v rest \<Rightarrow>
          (let rest' = skip_ws rest in
           if rest' = [] then Inr v
           else Inl (JSONDecodeError (errmsg ''Extra data'' s (length s - length rest')))))"

section \<open>Regular expressions (re.search with re.DOTALL)\<close>

datatype regex =
    Chr char
  | Cls "char \<Rightarrow> bool"
  | Seq regex regex
  | Opt regex
  | Star regex
  | Lazy regex
  | Group regex

text \<open>state: remaining input and group 1\<close>

type_synonym mstate = "string \<times> string option"

function (sequential) matches :: "regex \<Rightarrow> mstate \<Rightarrow> mstate list" where
  "matches (Chr c) (s, g) = (case s of [] \<Rightarrow> [] | x # r \<Rightarrow> if x = c then [(r, g)] else [])"
| "matches (Cls P) (s, g) = (case s of [] \<Rightarrow> [] | x # r \<Rightarrow> if P x then [(r, g)] else [])"
| "matches (Seq a b) st = concat (map (matches b) (matches a st))"
| "matches (Opt a) st = matches a st @ [st]"
| "matches (Star a) (s, g) =
     concat (map (\<lambda>st'. if length (fst st') < length s then matches (Star a) st' else [])
                 (matches a (s, g)))
     @ [(s, g)]"
| "matches (Lazy a) (s, g) =
     (s, g) #
     concat (map (\<lambda>st'. if length (fst st') < length s then matches (Lazy a) st' else [])
                 (matches a (s, g)))"
| "matches (Group a) (s, g) =
     map (\<lambda>(r, _). (r, Some (take (length s - length r) s))) (matches a (s, g))"
  by pat_completeness auto
termination
  by (relation "inv_image (less_than <*lex*> less_than) (\<lambda>(r, st). (size r, length (fst st)))")
     auto

fun lit :: "string \<Rightarrow> regex \<Rightarrow> regex" where
  "lit [] r = r"
| "lit (c # cs) r = Seq (Chr c) (lit cs r)"

text \<open>match object: group(0), group(1)\<close>

fun search :: "regex \<Rightarrow> string \<Rightarrow> (string \<times> string option) option" where
  "search r s =
     (case matches r (s, None) of
        (rest, g) # _ \<Rightarrow> Some (take (length s - length rest) s, g)
      | [] \<Rightarrow> (case s of [] \<Rightarrow> None | _ # s' \<Rightarrow> search r s'))"

definition any_char :: "char \<Rightarrow> bool" where "any_char c = True"

definition re_space :: "char \<Rightarrow> bool" where
  "re_space c = (let n = (of_char c :: nat) in
     (9 \<le> n \<and> n \<le> 13) \<or> (28 \<le> n \<and> n \<le> 32) \<or> n = 133 \<or> n = 160)"

definition not_brace :: "char \<Rightarrow> bool" where
  "not_brace c = (c \<noteq> CHR ''{'' \<and> c \<noteq> CHR ''}'')"

text \<open>r'```(?:json)?\s*(\{.*?\})\s*```'\<close>

definition FENCED :: regex where
  "FENCED =
     lit ''```'' (Seq (Opt (lit ''jso'' (Chr CHR ''n''))) (Seq (Star (Cls re_space))
       (Seq (Group (Seq (Chr CHR ''{'') (Seq (Lazy (Cls any_char)) (Chr CHR ''}''))))
         (Seq (Star (Cls re_space)) (lit ''``'' (Chr CHR ''`''))))))"

text \<open>r'\{[^{}]*"key"[^{}]*\[.*?\][^{}]*\}'\<close>

definition KEYED_LIST :: "string \<Rightarrow> regex" where
  "KEYED_LIST key =
     Seq (Chr CHR ''{'') (Seq (Star (Cls not_brace))
       (lit ([CHR 0x22] @ key @ [CHR 0x22]) (Seq (Star (Cls not_brace))
         (Seq (Chr CHR ''['') (Seq (Lazy (Cls any_char)) (Seq (Chr CHR '']'')
           (Seq (Star (Cls not_brace)) (Chr CHR ''}''))))))))"

text \<open>r'\{.*"key".*\}'\<close>

definition KEYED :: "string \<Rightarrow> regex" where
  "KEYED key =
     Seq (Chr CHR ''{'') (Seq (Star (Cls any_char))
       (lit ([CHR 0x22] @ key @ [CHR 0x22]) (Seq (Star (Cls any_char)) (Chr CHR ''}''))))"

section \<open>Dynamic operations on Python values\<close>

fun type_name :: "pyval \<Rightarrow> string" where
  "type_name PNone = ''NoneType''"
| "type_name (PBool b) = ''bool''"
| "type_name (PInt i) = ''int''"
| "type_name (PFloat f) = ''float''"
| "type_name (PStr s) = ''str''"
| "type_name (PList l) = ''list''"
| "type_name (PDict d) = ''dict''"

definition quoted :: "string \<Rightarrow> string" where
  "quoted s = [CHR 0x27] @ s @ [CHR 0x27]"

text \<open>obj.get(key, dflt)\<close>

fun py_get :: "pyval \<Rightarrow> string \<Rightarrow> pyval \<Rightarrow> exn + pyval" where
  "py_get (PDict d) key dflt = Inr (case map_of d key of Some v \<Rightarrow> v | None \<Rightarrow> dflt)"
| "py_get v key dflt =
     Inl (PyException (quoted (type_name v) @ '' object has no attribute '' @ quoted ''get''))"

text \<open>len(obj)\<close>

fun py_len :: "pyval \<Rightarrow> exn + nat" where
  "py_len (PStr s) = Inr (length s)"
| "py_len (PList l) = Inr (length l)"
| "py_len (PDict d) = Inr (length d)"
| "py_len v = Inl (PyException (''object of type '' @ quoted (type_name v) @ '' has no len()''))"

text \<open>
  Whether the float read from a lexeme of the JSON number syntax is zero: its digits are
  all zero, or its value is at most \<open>2 ^ -1075\<close>, which rounds to zero.
\<close>

definition digits_val :: "string \<Rightarrow> nat" where
  "digits_val ds = foldl (\<lambda>a c. a * 10 + (of_char c - 48)) 0 ds"

definition float_is_zero :: "string \<Rightarrow> bool" where
  "float_is_zero lexeme =
     (let body = (if startswith lexeme ''-'' then tl lexeme else lexeme);
          int_digits = takeWhile is_digit body;
          r1 = drop (length int_digits) body;
          frac_digits = (if startswith r1 ''.'' then takeWhile is_digit (tl r1) else []);
          r2 = (if startswith r1 ''.'' then drop (Suc (length frac_digits)) r1 else r1);
          exp_neg = startswith (drop 1 r2) ''-'';
          exp_digits = dropWhile (\<lambda>c. \<not> is_digit c) r2;
          mantissa = int (digits_val (int_digits @ frac_digits));
          e10 = (if exp_neg then - int (digits_val exp_digits) else int (digits_val exp_digits))
                  - int (length frac_digits)
      in int_digits \<noteq> [] \<and>
         (mantissa = 0 \<or> (e10 < 0 \<and> mantissa * 2 ^ 1075 \<le> 10 ^ nat (- e10))))"

text \<open>Truth value of an object in a condition.\<close>

fun truthy :: "pyval \<Rightarrow> bool" where
  "truthy PNone = False"
| "truthy (PBool b) = b"
| "truthy (PInt i) = (i \<noteq> 0)"
| "truthy (PFloat f) = (\<not> float_is_zero f)"
| "truthy (PStr s) = (s \<noteq> [])"
| "truthy (PList l) = (l \<noteq> [])"
| "truthy (PDict d) = (d \<noteq> [])"

text \<open>obj[0], for an object whose len is positive\<close>

fun py_first :: "pyval \<Rightarrow> exn + pyval" where
  "py_first (PList (x # xs)) = Inr x"
| "py_first (PStr (c # cs)) = Inr (PStr [c])"
| "py_first (PDict d) = Inl (PyException ''0'')"
| "py_first (PList []) = Inl (PyException ''list index out of range'')"
| "py_first (PStr []) = Inl (PyException ''string index out of range'')"
| "py_first v = Inl (PyException (quoted (type_name v) @ '' object is not subscriptable''))"

text \<open>json.loads on any object: a TypeError unless it is a str\<close>

fun loads :: "pyval \<Rightarrow> exn + pyval" where
  "loads (PStr s) = json_loads s"
| "loads v =
     Inl (PyException (''the JSON object must be str, bytes or bytearray, not '' @ type_name v))"

fun str_exn :: "exn \<Rightarrow> string" where
  "str_exn (JSONDecodeError m) = m"
| "str_exn (PyException m) = m"
| "str_exn (HTTPStatusError code m) = m"
| "str_exn CancelledError = []"

section \<open>Extraction pipeline (api/anthropic_processor.py)\<close>

datatype prompt =
    EXTRACTION_PROMPT
  | CONTINGENCY_EXTRACTION_PROMPT
  | CONTINGENCY_MULTI_EXTRACTION_PROMPT
  | GRID_EXTRACTION_PROMPT

record image_block =
  media_type :: string
  image_data :: string

record request =
  x_api_key :: string
  max_tokens :: nat
  timeout :: nat
  images :: "image_block list"
  prompt_text :: prompt

text \<open>
  A response of the oracle: the status error that \<open>raise_for_status\<close> raises, if any, and
  what \<open>response.json()\<close> gives.
\<close>

record response =
  status_error :: "(nat \<times> string) option"
  json_body :: "exn + pyval"

type_synonym completion = "request \<Rightarrow> exn + response"

definition raise_for_status :: "response \<Rightarrow> exn + unit" where
  "raise_for_status r =
     (case status_error r of
        Some (code, body) \<Rightarrow> Inl (HTTPStatusError code body)
      | None \<Rightarrow> Inr ())"

text \<open>s.split(",", 1)\<close>

fun split_once :: "char \<Rightarrow> string \<Rightarrow> string list" where
  "split_once sep s =
     (if sep \<in> set s
      then [takeWhile (\<lambda>c. c \<noteq> sep) s, tl (dropWhile (\<lambda>c. c \<noteq> sep) s)]
      else [s])"

definition image_source :: "string \<Rightarrow> image_block" where
  "image_source screenshot_base64 =
     (if startswith screenshot_base64 ''data:'' then
        (case split_once CHR '','' screenshot_base64 of
           [p0, p1] \<Rightarrow>
             \<lparr>media_type = (if contains p0 ''jpeg'' then ''image/jpeg'' else ''image/png''),
              image_data = p1\<rparr>
         | _ \<Rightarrow> \<lparr>media_type = ''image/png'', image_data = screenshot_base64\<rparr>)
      else \<lparr>media_type = ''image/png'', image_data = screenshot_base64\<rparr>)"

text \<open>
  What the four functions differ in: the key of the schema and the value it gets in an
  error result, the pattern of the third strategy, whether the log line after the direct
  parse and after the fenced block takes \<open>len(data.get(key, []))\<close>, the prompt and the
  budgets of the request.
\<close>

record variant =
  schema_key :: string
  empty_value :: pyval
  third_pattern :: regex
  direct_len :: bool
  fenced_len :: bool
  instruction :: prompt
  token_budget :: nat
  seconds :: nat

definition error_result :: "variant \<Rightarrow> string \<Rightarrow> pyval" where
  "error_result v msg = PDict [(schema_key v, empty_value v), (''error'', PStr msg)]"

definition failure_shape :: "variant \<Rightarrow> string \<Rightarrow> pyval" where
  "failure_shape v text_response =
     PDict [(schema_key v, empty_value v), (''error'', PStr ''Could not parse response''),
            (''raw_response'', PStr (take 500 text_response))]"

text \<open>The log line \<open>len(data.get(key, []))\<close>: it raises where the value has no such shape.\<close>

definition log_len :: "variant \<Rightarrow> pyval \<Rightarrow> exn + pyval" where
  "log_len v parsed =
     (case py_get parsed (schema_key v) (PList []) of
        Inl e \<Rightarrow> Inl e
      | Inr items \<Rightarrow> (case py_len items of Inl e \<Rightarrow> Inl e | Inr n \<Rightarrow> Inr parsed))"

text \<open>The inner \<open>try\<close> with its \<open>except json.JSONDecodeError\<close> handler.\<close>

definition parse_response :: "variant \<Rightarrow> pyval \<Rightarrow> exn + pyval" where
  "parse_response v text_response =
     (case loads text_response of
        Inr parsed \<Rightarrow> (if direct_len v then log_len v parsed else Inr parsed)
      | Inl (JSONDecodeError m) \<Rightarrow>
          (case text_response of
             PStr txt \<Rightarrow>
               (case search FENCED txt of
                  Some (g0, g1) \<Rightarrow>
                    (case loads (case g1 of Some g \<Rightarrow> PStr g | None \<Rightarrow> PNone) of
                       Inl e \<Rightarrow> Inl e
                     | Inr parsed \<Rightarrow> (if fenced_len v then log_len v parsed else Inr parsed))
                | None \<Rightarrow>
                    (case search (third_pattern v) txt of
                       Some (g0, g1) \<Rightarrow> loads (PStr g0)
                     | None \<Rightarrow> Inr (failure_shape v txt)))
           | _ \<Rightarrow> Inl (JSONDecodeError m))
      | Inl e \<Rightarrow> Inl e)"

text \<open>
  The text of the first content block of the decoded response body:
  \<open>content = result.get("content", [])\<close>, then \<open>content[0].get("text", "")\<close> when
  \<open>content and len(content) > 0\<close>, and nothing otherwise.
\<close>

definition first_text :: "pyval \<Rightarrow> exn + pyval option" where
  "first_text result =
     (case py_get result ''content'' (PList []) of
        Inl e \<Rightarrow> Inl e
      | Inr blocks \<Rightarrow>
          if \<not> truthy blocks then Inr None
          else
            (case py_len blocks of
               Inl e \<Rightarrow> Inl e
             | Inr n \<Rightarrow>
                 if n > 0 then
                   (case py_first blocks of
                      Inl e \<Rightarrow> Inl e
                    | Inr block \<Rightarrow>
                        (case py_get block ''text'' (PStr []) of
                           Inl e \<Rightarrow> Inl e
                         | Inr text_response \<Rightarrow> Inr (Some text_response)))
                 else Inr None))"

text \<open>The body of the outer \<open>try\<close>.\<close>

definition call_oracle :: "variant \<Rightarrow> completion \<Rightarrow> request \<Rightarrow> exn + pyval" where
  "call_oracle v post req =
     (case post req of
        Inl e \<Rightarrow> Inl e
      | Inr resp \<Rightarrow>
          (case raise_for_status resp of
             Inl e \<Rightarrow> Inl e
           | Inr _ \<Rightarrow>
               (case json_body resp of
                  Inl e \<Rightarrow> Inl e
                | Inr result \<Rightarrow>
                    (case first_text result of
                       Inl e \<Rightarrow> Inl e
                     | Inr None \<Rightarrow> Inr (error_result v ''Empty response from Anthropic'')
                     | Inr (Some text_response) \<Rightarrow> parse_response v text_response))))"

text \<open>The request: one image block for each screenshot, then the prompt.\<close>

definition request_for :: "variant \<Rightarrow> string list \<Rightarrow> string \<Rightarrow> request" where
  "request_for v screenshots api_key =
     \<lparr>x_api_key = api_key, max_tokens = token_budget v, timeout = seconds v,
      images = map image_source screenshots, prompt_text = instruction v\<rparr>"

text \<open>The two \<open>except\<close> clauses of the outer \<open>try\<close>.\<close>

definition extract_data :: "variant \<Rightarrow> completion \<Rightarrow> string list \<Rightarrow> string \<Rightarrow> exn + pyval" where
  "extract_data v post screenshots api_key =
     (case call_oracle v post (request_for v screenshots api_key) of
        Inr res \<Rightarrow> Inr res
      | Inl (HTTPStatusError code body) \<Rightarrow> Inr (error_result v (''API error: '' @ str_nat code))
      | Inl e \<Rightarrow> if is_Exception e then Inr (error_result v (str_exn e)) else Inl e)"

text \<open>
  The text with which the oracle answers a request, when the call succeeds with a body
  whose first content block holds a string.
\<close>

definition oracle_text :: "completion \<Rightarrow> request \<Rightarrow> string option" where
  "oracle_text post req =
     (case post req of
        Inr resp \<Rightarrow>
          (case status_error resp of
             None \<Rightarrow>
               (case json_body resp of
                  Inr result \<Rightarrow>
                    (case first_text result of Inr (Some (PStr txt)) \<Rightarrow> Some txt | _ \<Rightarrow> None)
                | Inl e \<Rightarrow> None)
           | Some err \<Rightarrow> None)
      | Inl e \<Rightarrow> None)"

definition bus_variant :: variant where
  "bus_variant = \<lparr>schema_key = ''buses'', empty_value = PList [],
     third_pattern = KEYED_LIST ''buses'', direct_len = True, fenced_len = True,
     instruction = EXTRACTION_PROMPT, token_budget = 4096, seconds = 60\<rparr>"

definition contingency_variant :: variant where
  "contingency_variant = \<lparr>schema_key = ''contingencies'', empty_value = PList [],
     third_pattern = KEYED_LIST ''contingencies'', direct_len = True, fenced_len = False,
     instruction = CONTINGENCY_EXTRACTION_PROMPT, token_budget = 4096, seconds = 60\<rparr>"

definition contingency_multi_variant :: variant where
  "contingency_multi_variant = \<lparr>schema_key = ''contingencies'', empty_value = PList [],
     third_pattern = KEYED ''contingencies'', direct_len = True, fenced_len = False,
     instruction = CONTINGENCY_MULTI_EXTRACTION_PROMPT, token_budget = 8192, seconds = 120\<rparr>"

definition grid_variant :: variant where
  "grid_variant = \<lparr>schema_key = ''grid'', empty_value = PDict [],
     third_pattern = KEYED ''grid'', direct_len = False, fenced_len = False,
     instruction = GRID_EXTRACTION_PROMPT, token_budget = 4096, seconds = 60\<rparr>"

definition extract_bus_data :: "completion \<Rightarrow> string \<Rightarrow> string \<Rightarrow> exn + pyval" where
  "extract_bus_data post screenshot_base64 api_key =
     extract_data bus_variant post [screenshot_base64] api_key"

definition extract_contingency_data :: "completion \<Rightarrow> string \<Rightarrow> string \<Rightarrow> exn + pyval" where
  "extract_contingency_data post screenshot_base64 api_key =
     extract_data contingency_variant post [screenshot_base64] api_key"

definition extract_contingency_data_multi ::
  "completion \<Rightarrow> string list \<Rightarrow> string \<Rightarrow> exn + pyval" where
  "extract_contingency_data_multi post screenshots api_key =
     extract_data contingency_multi_variant post screenshots api_key"

definition extract_grid_data :: "completion \<Rightarrow> string \<Rightarrow> string \<Rightarrow> exn + pyval" where
  "extract_grid_data post screenshot_base64 api_key =
     extract_data grid_variant post [screenshot_base64] api_key"

section \<open>Connection registry (websocket/manager.py)\<close>

text \<open>
  \<open>ConnectionManager.active_connections\<close> is a Python list of channel handles.
  \<open>disconnect\<close> removes the first occurrence of the handle when it is present.
\<close>

definition disconnect :: "'c \<Rightarrow> 'c list \<Rightarrow> 'c list" where
  "disconnect websocket active_connections =
     (if websocket \<in> set active_connections then remove1 websocket active_connections
      else active_connections)"

text \<open>
  The outcome of a broadcast: the exception that left it (only one that is not an
  \<open>Exception\<close> can), the registry afterwards, and the channels whose \<open>send_json\<close>
  returned, in order.
\<close>

record 'c broadcast_result =
  raised :: "exn option"
  registry :: "'c list"
  delivered :: "'c list"

text \<open>
  The loop of \<open>broadcast\<close> over the registry. \<open>send i c\<close> is the outcome of the \<open>i\<close>-th
  \<open>connection.send_json(data)\<close> of this broadcast, made on channel \<open>c\<close>. The accumulators
  are the channels served so far and the list \<open>disconnected\<close> of the source.
\<close>

fun broadcast_loop ::
  "(nat \<Rightarrow> 'c \<Rightarrow> exn + unit) \<Rightarrow> nat \<Rightarrow> 'c list \<Rightarrow> 'c list \<Rightarrow> 'c list
     \<Rightarrow> exn option \<times> 'c list \<times> 'c list" where
  "broadcast_loop send i [] served disconnected = (None, served, disconnected)"
| "broadcast_loop send i (connection # rest) served disconnected =
     (case send i connection of
        Inr _ \<Rightarrow> broadcast_loop send (Suc i) rest (served @ [connection]) disconnected
      | Inl e \<Rightarrow>
          if is_Exception e
          then broadcast_loop send (Suc i) rest served (disconnected @ [connection])
          else (Some e, served, disconnected))"

definition broadcast ::
  "(nat \<Rightarrow> 'c \<Rightarrow> exn + unit) \<Rightarrow> 'c list \<Rightarrow> 'c broadcast_result" where
  "broadcast send active_connections =
     (case broadcast_loop send 0 active_connections [] [] of
        (Some e, served, disconnected) \<Rightarrow>
          \<lparr>raised = Some e, registry = active_connections, delivered = served\<rparr>
      | (None, served, disconnected) \<Rightarrow>
          \<lparr>raised = None,
           registry = fold disconnect disconnected active_connections,
           delivered = served\<rparr>)"

text \<open>The channels of a registry whose send succeeds, with the position of each send.\<close>

fun reachable :: "(nat \<Rightarrow> 'c \<Rightarrow> exn + unit) \<Rightarrow> nat \<Rightarrow> 'c list \<Rightarrow> 'c list" where
  "reachable send i [] = []"
| "reachable send i (c # cs) =
     (case send i c of
        Inr _ \<Rightarrow> c # reachable send (Suc i) cs
      | Inl _ \<Rightarrow> reachable send (Suc i) cs)"

fun unreachable :: "(nat \<Rightarrow> 'c \<Rightarrow> exn + unit) \<Rightarrow> nat \<Rightarrow> 'c list \<Rightarrow> 'c list" where
  "unreachable send i [] = []"
| "unreachable send i (c # cs) =
     (case send i c of
        Inr _ \<Rightarrow> unreachable send (Suc i) cs
      | Inl _ \<Rightarrow> c # unreachable send (Suc i) cs)"

text \<open>No send of the broadcast is interrupted by a cancellation.\<close>

definition sends_settle :: "(nat \<Rightarrow> 'c \<Rightarrow> exn + unit) \<Rightarrow> 'c list \<Rightarrow> bool" where
  "sends_settle send cs =
     list_all (\<lambda>(i, c). send i c \<noteq> Inl CancelledError) (enumerate 0 cs)"

section \<open>Job runner state and logging (api/bus_service.py, api/contingency_service.py)\<close>

record LogEntry =
  timestamp :: real
  message :: string
  level :: string

text \<open>
  The fields that every runner has, and the fields of a \<open>BusAPIService\<close> or
  \<open>ContingencyAPIService\<close> object. \<open>computer\<close> tells
  whether the attribute holds a \<open>Computer\<close> object, \<open>log_callback\<close> whether a callback
  was given. Two fields record effects: \<open>streamed\<close> lists the entries for which \<open>_log\<close>
  has created a callback task, \<open>posted\<close> the requests the current run has sent to the
  extraction oracle.
\<close>

record runner =
  computer :: bool
  is_running :: bool

record service = runner +
  logs :: "LogEntry list"
  final_screenshot :: "string option"
  log_callback :: bool
  streamed :: "LogEntry list"
  trajectory_path :: "string option"
  posted :: "request list"

text \<open>
  \<open>_log\<close>. The wall clock is a parameter: \<open>clock n\<close> is what \<open>time.time()\<close> returns
  for the entry appended to a list of \<open>n\<close> entries.
\<close>

definition log_entry :: "(nat \<Rightarrow> real) \<Rightarrow> string \<Rightarrow> string \<Rightarrow> service \<Rightarrow> service" where
  "log_entry clock msg lvl s =
     (let entry = \<lparr>timestamp = clock (length (logs s)), message = msg, level = lvl\<rparr>
      in s\<lparr>logs := logs s @ [entry],
            streamed := (if log_callback s then streamed s @ [entry] else streamed s)\<rparr>)"

text \<open>\<open>stop\<close>: one log entry, then the flag is cleared.\<close>

definition stop :: "(nat \<Rightarrow> real) \<Rightarrow> service \<Rightarrow> service" where
  "stop clock s = (log_entry clock ''Stopping task...'' ''info'' s)\<lparr>is_running := False\<rparr>"

section \<open>Artifact selection\<close>

text \<open>
  A PNG file below the trajectory directory: its path, what \<open>os.path.getmtime\<close> gives
  for it and what reading it gives (either may raise). \<open>pngs\<close> is the list that
  \<open>glob.glob\<close> returns, in its order.
\<close>

record png_file =
  path :: string
  mtime :: "exn + real"
  content :: "exn + string"

record trajectory =
  path_exists :: bool
  pngs :: "png_file list"

text \<open>The keys of \<open>max\<close> and \<open>sort\<close>, computed in list order; the first failure raises.\<close>

fun getmtimes :: "png_file list \<Rightarrow> exn + (png_file \<times> real) list" where
  "getmtimes [] = Inr []"
| "getmtimes (f # fs) =
     (case mtime f of
        Inl e \<Rightarrow> Inl e
      | Inr t \<Rightarrow> (case getmtimes fs of Inl e \<Rightarrow> Inl e | Inr kvs \<Rightarrow> Inr ((f, t) # kvs)))"

text \<open>Python's \<open>max\<close> with a key: a later item wins only with a strictly greater key.\<close>

fun py_max :: "'a \<times> real \<Rightarrow> ('a \<times> real) list \<Rightarrow> 'a" where
  "py_max (m, mv) [] = m"
| "py_max (m, mv) ((x, v) # rest) =
     (if v > mv then py_max (x, v) rest else py_max (m, mv) rest)"

definition no_path :: "string option \<Rightarrow> bool" where
  "no_path p = (case p of None \<Rightarrow> True | Some q \<Rightarrow> q = [])"

definition get_latest_screenshot ::
  "(nat \<Rightarrow> real) \<Rightarrow> trajectory \<Rightarrow> service \<Rightarrow> (exn + string option) \<times> service" where
  "get_latest_screenshot clock dir s =
     (if no_path (trajectory_path s) \<or> \<not> path_exists dir then (Inr None, s)
      else if pngs dir = [] then (Inr None, s)
      else
        (case getmtimes (pngs dir) of
           Inl e \<Rightarrow> (Inl e, s)
         | Inr [] \<Rightarrow> (Inr None, s)
         | Inr (kv # kvs) \<Rightarrow>
             (let latest = py_max kv kvs;
                  s1 = log_entry clock (''Found screenshot: '' @ path latest) ''info'' s
              in case content latest of
                   Inl e \<Rightarrow> (Inl e, s1)
                 | Inr bytes \<Rightarrow> (Inr (Some (data_url bytes)), s1))))"

text \<open>The reads of \<open>_get_all_screenshots\<close>, in the sorted order; the first failure raises.\<close>

fun read_all :: "png_file list \<Rightarrow> exn + string list" where
  "read_all [] = Inr []"
| "read_all (f # fs) =
     (case content f of
        Inl e \<Rightarrow> Inl e
      | Inr bytes \<Rightarrow>
          (case read_all fs of Inl e \<Rightarrow> Inl e | Inr urls \<Rightarrow> Inr (data_url bytes # urls)))"

text \<open>\<open>list.sort(key=...)\<close> is a stable ascending sort, as \<open>sort_key\<close> is.\<close>

definition get_all_screenshots ::
  "(nat \<Rightarrow> real) \<Rightarrow> trajectory \<Rightarrow> service \<Rightarrow> (exn + string list) \<times> service" where
  "get_all_screenshots clock dir s =
     (if no_path (trajectory_path s) \<or> \<not> path_exists dir then (Inr [], s)
      else if pngs dir = [] then (Inr [], s)
      else
        (case getmtimes (pngs dir) of
           Inl e \<Rightarrow> (Inl e, s)
         | Inr kvs \<Rightarrow>
             (case read_all (map fst (sort_key snd kvs)) of
                Inl e \<Rightarrow> (Inl e, s)
              | Inr result \<Rightarrow>
                  (Inr result,
                   log_entry clock
                     (''Found '' @ str_nat (length result) @ '' screenshots in trajectory'')
                     ''info'' s))))"

text \<open>Files whose modification time and content can both be read.\<close>

definition readable :: "png_file \<Rightarrow> bool" where
  "readable f = (\<not> isl (mtime f) \<and> \<not> isl (content f))"

definition mtime_of :: "png_file \<Rightarrow> real" where
  "mtime_of f = projr (mtime f)"

definition bytes_of :: "png_file \<Rightarrow> string" where
  "bytes_of f = projr (content f)"

section \<open>Job runs (BusAPIService.run, ContingencyAPIService.run)\<close>

record APIResult =
  status :: string
  data :: "pyval option"
  error :: "string option"
  result_logs :: "LogEntry list"
  result_screenshot :: "string option"

text \<open>
  The events of the agent, decoded: an item of \<open>result.get("output", [])\<close> is a message
  with its content blocks, a computer call output with its content, a computer call with
  the type of its action, or an item of another type. \<open>Malformed e\<close> and \<open>BadResult e\<close>
  stand for an item or a result whose shape makes the handling code raise \<open>e\<close>.
\<close>

record text_block =
  block_text :: string
  output_text :: string

record output_item =
  output_type :: string
  image_url :: string

datatype item =
    Message "text_block list"
  | ComputerCallOutput "output_item list"
  | ComputerCall string
  | OtherItem
  | Malformed exn

datatype agent_result = Output "item list" | BadResult exn

datatype flow = BusAPI | ContingencyAPI

text \<open>
  Everything outside the runner that one run meets, in the order of the source. An
  awaited call comes with a flag: whether \<open>stop()\<close> was called on the service while the
  run was suspended there. \<open>agent_steps\<close> are the results the agent yields,
  \<open>agent_end\<close> how its stream ends (normally, or by raising), \<open>trajectory_dir\<close> the
  directory as it is when the run scans it.
\<close>

record run_env =
  now :: "nat \<Rightarrow> real"
  anthropic_api_key :: string
  trajectory_base :: string
  run_id :: string
  computer_ctor :: "exn + unit"
  computer_run :: "bool \<times> (exn + unit)"
  makedirs :: "exn + unit"
  agent_ctor :: "exn + unit"
  agent_steps :: "(bool \<times> agent_result) list"
  agent_end :: "bool \<times> exn option"
  trajectory_dir :: trajectory
  extract_stop :: bool
  anthropic_post :: completion
  computer_disconnect :: "bool \<times> (exn + unit)"

text \<open>A statement that may raise: its value or the exception, and the state it leaves.\<close>

type_synonym 'a stmt = "(exn + 'a) \<times> service"

definition and_then :: "'a stmt \<Rightarrow> ('a \<Rightarrow> service \<Rightarrow> 'b stmt) \<Rightarrow> 'b stmt" where
  "and_then m f = (case m of (Inl e, s) \<Rightarrow> (Inl e, s) | (Inr a, s) \<Rightarrow> f a s)"

text \<open>The run resumes from an await; \<open>stop()\<close> may have been called meanwhile.\<close>

definition resumed :: "run_env \<Rightarrow> bool \<Rightarrow> service \<Rightarrow> service" where
  "resumed env stop_called s = (if stop_called then stop (now env) s else s)"

definition info :: "run_env \<Rightarrow> string \<Rightarrow> service \<Rightarrow> service" where
  "info env msg s = log_entry (now env) msg ''info'' s"

definition initialize :: "run_env \<Rightarrow> service \<Rightarrow> unit stmt" where
  "initialize env s =
     (let s1 = info env ''Connecting to Windows sandbox...'' s
      in case computer_ctor env of
           Inl e \<Rightarrow> (Inl e, s1)
         | Inr _ \<Rightarrow> (Inr (), s1\<lparr>computer := True\<rparr>))"

definition trajectory_prefix :: "flow \<Rightarrow> string" where
  "trajectory_prefix f = (case f of BusAPI \<Rightarrow> ''bus_api_'' | ContingencyAPI \<Rightarrow> ''contingency_api_'')"

definition create_agent :: "flow \<Rightarrow> run_env \<Rightarrow> service \<Rightarrow> unit stmt" where
  "create_agent f env s =
     (if \<not> computer s then (Inl (PyException ''Computer not initialized''), s)
      else
        (let s1 = info env ''Creating CUA agent...'' s;
             p = trajectory_base env @ ''/'' @ trajectory_prefix f @ run_id env;
             s2 = s1\<lparr>trajectory_path := Some p\<rparr>
         in case makedirs env of
              Inl e \<Rightarrow> (Inl e, s2)
            | Inr _ \<Rightarrow>
                (let s3 = info env (''Trajectory will be saved to: '' @ p) s2
                 in case agent_ctor env of
                      Inl e \<Rightarrow> (Inl e, s3)
                    | Inr _ \<Rightarrow> (Inr (), s3))))"

text \<open>The handling of one item of the output.\<close>

fun log_blocks :: "run_env \<Rightarrow> text_block list \<Rightarrow> service \<Rightarrow> service" where
  "log_blocks env [] s = s"
| "log_blocks env (b # bs) s =
     (let txt = (if block_text b \<noteq> [] then block_text b else output_text b)
      in log_blocks env bs
           (if txt \<noteq> [] then info env (''Agent: '' @ take 200 txt @ ''...'') s else s))"

fun capture :: "run_env \<Rightarrow> output_item list \<Rightarrow> service \<Rightarrow> service" where
  "capture env [] s = s"
| "capture env (out # outs) s =
     capture env outs
       (if output_type out \<in> {''computer_screenshot'', ''input_image''} \<and> image_url out \<noteq> []
        then info env ''Screenshot captured'' (s\<lparr>final_screenshot := Some (image_url out)\<rparr>)
        else s)"

fun handle_item :: "flow \<Rightarrow> run_env \<Rightarrow> item \<Rightarrow> service \<Rightarrow> unit stmt" where
  "handle_item f env (Message blocks) s = (Inr (), log_blocks env blocks s)"
| "handle_item f env (ComputerCallOutput outs) s =
     (Inr (), case f of BusAPI \<Rightarrow> capture env outs s | ContingencyAPI \<Rightarrow> s)"
| "handle_item f env (ComputerCall action_type) s =
     (Inr (), info env (''Executing: '' @ action_type) s)"
| "handle_item f env OtherItem s = (Inr (), s)"
| "handle_item f env (Malformed e) s = (Inl e, s)"

fun handle_items :: "flow \<Rightarrow> run_env \<Rightarrow> item list \<Rightarrow> service \<Rightarrow> unit stmt" where
  "handle_items f env [] s = (Inr (), s)"
| "handle_items f env (i # is) s =
     and_then (handle_item f env i s) (\<lambda>_. handle_items f env is)"

text \<open>
  The \<open>async for\<close> loop: it leaves at the first result that finds the flag cleared, and
  otherwise when the stream ends or raises.
\<close>

fun consume :: "flow \<Rightarrow> run_env \<Rightarrow> (bool \<times> agent_result) list \<Rightarrow> service \<Rightarrow> unit stmt" where
  "consume f env [] s =
     (let s1 = resumed env (fst (agent_end env)) s
      in case snd (agent_end env) of None \<Rightarrow> (Inr (), s1) | Some e \<Rightarrow> (Inl e, s1))"
| "consume f env ((stop_called, r) # rest) s =
     (let s1 = resumed env stop_called s
      in if \<not> is_running s1 then (Inr (), s1)
         else
           (case r of
              BadResult e \<Rightarrow> (Inl e, s1)
            | Output items \<Rightarrow> and_then (handle_items f env items s1) (\<lambda>_. consume f env rest)))"

text \<open>The \<open>try\<close> block up to the end of the loop.\<close>

definition agent_phase :: "flow \<Rightarrow> run_env \<Rightarrow> service \<Rightarrow> unit stmt" where
  "agent_phase f env s =
     and_then (initialize env s) (\<lambda>_ s.
     (let s1 = info env ''Starting sandbox connection...'' s;
          s2 = resumed env (fst (computer_run env)) s1
      in case snd (computer_run env) of
           Inl e \<Rightarrow> (Inl e, s2)
         | Inr _ \<Rightarrow>
             and_then (create_agent f env (info env ''Sandbox connected successfully'' s2))
               (\<lambda>_ s. consume f env (agent_steps env)
                         (info env ''Agent initialized, starting task...'' s))))"

definition str_opt :: "string option \<Rightarrow> string" where
  "str_opt p = (case p of None \<Rightarrow> ''None'' | Some q \<Rightarrow> q)"

definition error_outcome :: "string \<Rightarrow> service \<Rightarrow> APIResult" where
  "error_outcome msg s =
     \<lparr>status = ''error'', data = None, error = Some msg, result_logs = logs s,
      result_screenshot = None\<rparr>"

text \<open>The log line \<open>len(data.get(key, []))\<close> of the runner.\<close>

definition count_of :: "string \<Rightarrow> pyval \<Rightarrow> exn + nat" where
  "count_of key d =
     (case py_get d key (PList []) of Inl e \<Rightarrow> Inl e | Inr items \<Rightarrow> py_len items)"

text \<open>The rest of the \<open>try\<close> block: collecting the artifacts and extracting.\<close>

definition collect_and_extract :: "flow \<Rightarrow> run_env \<Rightarrow> service \<Rightarrow> APIResult stmt" where
  "collect_and_extract f env s =
     (case f of
        BusAPI \<Rightarrow>
          and_then
            (get_latest_screenshot (now env) (trajectory_dir env)
               (info env ''Task completed, reading screenshot from trajectory...'' s))
            (\<lambda>shot s.
               (let s1 = s\<lparr>final_screenshot := shot\<rparr>
                in case shot of
                     Some url \<Rightarrow>
                       if url \<noteq> [] then
                         (let s2 = info env ''Sending screenshot to Anthropic for analysis...'' s1;
                              s3 = resumed env (extract_stop env)
                                     (s2\<lparr>posted := posted s2 @
                                        [request_for bus_variant [url] (anthropic_api_key env)]\<rparr>)
                          in case extract_bus_data (anthropic_post env) url
                                    (anthropic_api_key env) of
                               Inl e \<Rightarrow> (Inl e, s3)
                             | Inr bus_data \<Rightarrow>
                                 (case count_of ''buses'' bus_data of
                                    Inl e \<Rightarrow> (Inl e, s3)
                                  | Inr n \<Rightarrow>
                                      (let s4 = info env
                                             (''Extracted '' @ str_nat n @ '' buses'') s3
                                       in (Inr \<lparr>status = ''success'', data = Some bus_data,
                                                error = None, result_logs = logs s4,
                                                result_screenshot = final_screenshot s4\<rparr>,
                                           s4))))
                       else
                         (let msg = ''No screenshot found in trajectory: ''
                                      @ str_opt (trajectory_path s1);
                              s2 = log_entry (now env) msg ''error'' s1
                          in (Inr (error_outcome msg s2), s2))
                   | None \<Rightarrow>
                       (let msg = ''No screenshot found in trajectory: ''
                                    @ str_opt (trajectory_path s1);
                            s2 = log_entry (now env) msg ''error'' s1
                        in (Inr (error_outcome msg s2), s2))))
      | ContingencyAPI \<Rightarrow>
          and_then
            (get_all_screenshots (now env) (trajectory_dir env)
               (info env ''Task completed, reading screenshots from trajectory...'' s))
            (\<lambda>screenshots s.
               if screenshots \<noteq> [] then
                 (let s2 = info env (''Sending '' @ str_nat (length screenshots)
                                       @ '' screenshots to Anthropic for analysis...'') s;
                      s3 = resumed env (extract_stop env)
                             (s2\<lparr>posted := posted s2 @
                                [request_for contingency_multi_variant screenshots
                                   (anthropic_api_key env)]\<rparr>)
                  in case extract_contingency_data_multi (anthropic_post env) screenshots
                            (anthropic_api_key env) of
                       Inl e \<Rightarrow> (Inl e, s3)
                     | Inr contingency_data \<Rightarrow>
                         (case count_of ''contingencies'' contingency_data of
                            Inl e \<Rightarrow> (Inl e, s3)
                          | Inr n \<Rightarrow>
                              (let s4 = info env
                                     (''Extracted '' @ str_nat n @ '' contingencies'') s3
                               in (Inr \<lparr>status = ''success'', data = Some contingency_data,
                                        error = None, result_logs = logs s4,
                                        result_screenshot = Some (last screenshots)\<rparr>,
                                   s4))))
               else
                 (let msg = ''No screenshots found in trajectory: ''
                              @ str_opt (trajectory_path s);
                      s2 = log_entry (now env) msg ''error'' s
                  in (Inr (error_outcome msg s2), s2))))"

definition run_try :: "flow \<Rightarrow> run_env \<Rightarrow> service \<Rightarrow> APIResult stmt" where
  "run_try f env s = and_then (agent_phase f env s) (\<lambda>_. collect_and_extract f env)"

text \<open>The \<open>except Exception\<close> clause: anything else passes.\<close>

definition run_except :: "run_env \<Rightarrow> APIResult stmt \<Rightarrow> APIResult stmt" where
  "run_except env m =
     (case m of
        (Inr r, s) \<Rightarrow> (Inr r, s)
      | (Inl e, s) \<Rightarrow>
          if is_Exception e
          then (let s1 = log_entry (now env) (''Error: '' @ str_exn e) ''error'' s
                in (Inr (error_outcome (str_exn e) s1), s1))
          else (Inl e, s))"

text \<open>
  The \<open>finally\<close> clause. An exception that leaves it replaces the value that was about
  to be returned.
\<close>

definition run_finally :: "run_env \<Rightarrow> APIResult stmt \<Rightarrow> APIResult stmt" where
  "run_finally env m =
     (let s1 = (snd m)\<lparr>is_running := False\<rparr>
      in if computer s1 then
           (let s2 = resumed env (fst (computer_disconnect env)) s1
            in case snd (computer_disconnect env) of
                 Inr _ \<Rightarrow> (fst m, info env ''Disconnected from sandbox'' s2)
               | Inl e \<Rightarrow> if is_Exception e then (fst m, s2) else (Inl e, s2))
         else (fst m, s1))"

text \<open>
  \<open>run\<close>. The result holds the list object \<open>self.logs\<close> itself, so its logs are the logs
  of the service when \<open>run\<close> is left, with what the \<open>finally\<close> clause appended.
\<close>

record run_outcome =
  returned :: "exn + APIResult"
  final :: service

definition started :: "service \<Rightarrow> service" where
  "started s = s\<lparr>is_running := True, logs := [], final_screenshot := None, posted := []\<rparr>"

definition run :: "flow \<Rightarrow> run_env \<Rightarrow> service \<Rightarrow> run_outcome" where
  "run f env s =
     (case run_finally env (run_except env (run_try f env (started s))) of
        (Inl e, s') \<Rightarrow> \<lparr>returned = Inl e, final = s'\<rparr>
      | (Inr r, s') \<Rightarrow> \<lparr>returned = Inr (r\<lparr>result_logs := logs s'\<rparr>), final = s'\<rparr>)"

section \<open>Session coordinator (websocket/handler.py, cua/message_types.py)\<close>

datatype MessageType =
    START_AGENT | STOP_AGENT | RUN_API
  | SCREENSHOT | STATUS | MESSAGE | ERROR | AGENT_COMPLETE | API_LOG | API_RESPONSE

fun type_value :: "MessageType \<Rightarrow> string" where
  "type_value START_AGENT = ''start_agent''"
| "type_value STOP_AGENT = ''stop_agent''"
| "type_value RUN_API = ''run_api''"
| "type_value SCREENSHOT = ''screenshot''"
| "type_value STATUS = ''status''"
| "type_value MESSAGE = ''message''"
| "type_value ERROR = ''error''"
| "type_value AGENT_COMPLETE = ''agent_complete''"
| "type_value API_LOG = ''api_log''"
| "type_value API_RESPONSE = ''api_response''"

text \<open>
  The text of a message: a literal, or an f-string that ends with a value, whose text is
  the literal followed by \<open>str\<close> of the value.
\<close>

datatype wording = Plain string | Formatted string pyval

text \<open>\<open>StatusPayload(status, message)\<close>, and the envelope with its type and timestamp.\<close>

datatype payload = StatusPayload string wording

datatype WebSocketMessage = WebSocketMessage MessageType payload real

record CUAAgentService = runner +
  step_count :: nat

text \<open>
  A unit of work made by \<open>asyncio.create_task\<close>: what it runs, how far it is, and the
  runner on which it has called \<open>run\<close>, once it has.
\<close>

datatype task_body = RunAgent | RunApi pyval

datatype phase = Pending | Running | Finished | Cancelled

record task =
  work :: task_body
  phase :: phase
  runs_on :: "nat option"

text \<open>
  The attributes of a \<open>WebSocketHandler\<close>: references to the runner objects and the task
  handles it holds. A reference is the number of the object in the store below.
\<close>

record handler =
  agent_service :: "nat option"
  api_service :: "nat option"
  agent_task :: "nat option"
  api_task :: "nat option"

text \<open>
  The session and what it shares with its tasks: the runner objects made so far, the
  tasks, and the messages handed to \<open>manager.send_json\<close> for this channel, in order.
\<close>

record world =
  hnd :: handler
  agents :: "nat \<Rightarrow> CUAAgentService"
  agent_count :: nat
  apis :: "nat \<Rightarrow> service"
  api_count :: nat
  tasks :: "task list"
  sent :: "WebSocketMessage list"

text \<open>
  \<open>manager.send_json\<close>, seen from the handler: the message goes out with the time of its
  making (\<open>clock n\<close> for the message after \<open>n\<close> others); a failing transport is the
  registry's business and raises nothing here.
\<close>

definition send_json :: "(nat \<Rightarrow> real) \<Rightarrow> MessageType \<Rightarrow> payload \<Rightarrow> world \<Rightarrow> world" where
  "send_json clock t p w = w\<lparr>sent := sent w @ [WebSocketMessage t p (clock (length (sent w)))]\<rparr>"

text \<open>\<open>self.agent_service and self.agent_service.is_running\<close>, and the same for the API.\<close>

definition agent_active :: "world \<Rightarrow> bool" where
  "agent_active w =
     (case agent_service (hnd w) of None \<Rightarrow> False | Some r \<Rightarrow> is_running (agents w r))"

definition api_active :: "world \<Rightarrow> bool" where
  "api_active w =
     (case api_service (hnd w) of None \<Rightarrow> False | Some r \<Rightarrow> is_running (apis w r))"

definition create_task :: "task_body \<Rightarrow> world \<Rightarrow> world" where
  "create_task b w = w\<lparr>tasks := tasks w @ [\<lparr>work = b, phase = Pending, runs_on = None\<rparr>]\<rparr>"

definition start_agent :: "(nat \<Rightarrow> real) \<Rightarrow> world \<Rightarrow> world" where
  "start_agent clock w =
     (if agent_active w
      then send_json clock ERROR (StatusPayload ''error'' (Plain ''Agent is already running'')) w
      else
        (let r = agent_count w;
             w1 = w\<lparr>agents := (agents w)
                        (r := \<lparr>computer = False, is_running = False, step_count = 0\<rparr>),
                    agent_count := Suc r,
                    hnd := (hnd w)\<lparr>agent_service := Some r\<rparr>\<rparr>;
             w2 = create_task RunAgent w1
         in w2\<lparr>hnd := (hnd w2)\<lparr>agent_task := Some (length (tasks w1))\<rparr>\<rparr>))"

definition run_api :: "(nat \<Rightarrow> real) \<Rightarrow> pyval \<Rightarrow> world \<Rightarrow> world" where
  "run_api clock endpoint w =
     (if api_active w
      then send_json clock ERROR (StatusPayload ''error'' (Plain ''An API is already running'')) w
      else
        (let w1 = send_json clock STATUS
                    (StatusPayload ''running'' (Formatted ''Starting API: '' endpoint)) w;
             w2 = create_task (RunApi endpoint) w1
         in w2\<lparr>hnd := (hnd w2)\<lparr>api_task := Some (length (tasks w1))\<rparr>\<rparr>))"

text \<open>
  A pending task takes its first steps. The agent task calls \<open>run_task\<close> on the service
  the handler holds at that moment, which sets the flag. The API task makes the service
  of its endpoint, stores it in the handler and calls \<open>run\<close> on it, which sets the flag;
  for any other endpoint it reports the error and ends, clearing the reference.
\<close>

definition flow_of :: "pyval \<Rightarrow> flow option" where
  "flow_of endpoint =
     (if endpoint = PStr ''buses'' then Some BusAPI
      else if endpoint = PStr ''contingency'' then Some ContingencyAPI
      else None)"

definition new_service :: service where
  "new_service = \<lparr>computer = False, is_running = False, logs = [], final_screenshot = None,
     log_callback = True, streamed = [], trajectory_path = None, posted = []\<rparr>"

definition task_starts :: "(nat \<Rightarrow> real) \<Rightarrow> nat \<Rightarrow> world \<Rightarrow> world" where
  "task_starts clock t w =
     (if t < length (tasks w) \<and> phase (tasks w ! t) = Pending then
        (case work (tasks w ! t) of
           RunAgent \<Rightarrow>
             (case agent_service (hnd w) of
                None \<Rightarrow> w\<lparr>tasks := (tasks w)[t := (tasks w ! t)\<lparr>phase := Finished\<rparr>]\<rparr>
              | Some r \<Rightarrow>
                  w\<lparr>agents := (agents w)(r := (agents w r)\<lparr>is_running := True, step_count := 0\<rparr>),
                    tasks := (tasks w)[t := (tasks w ! t)\<lparr>phase := Running, runs_on := Some r\<rparr>]\<rparr>)
         | RunApi endpoint \<Rightarrow>
             (case flow_of endpoint of
                Some f \<Rightarrow>
                  (let r = api_count w in
                   w\<lparr>apis := (apis w)(r := started new_service),
                     api_count := Suc r,
                     hnd := (hnd w)\<lparr>api_service := Some r\<rparr>,
                     tasks := (tasks w)[t := (tasks w ! t)\<lparr>phase := Running, runs_on := Some r\<rparr>]\<rparr>)
              | None \<Rightarrow>
                  (let w1 = send_json clock ERROR
                              (StatusPayload ''error'' (Formatted ''Unknown API endpoint: '' endpoint)) w
                   in w1\<lparr>hnd := (hnd w1)\<lparr>api_service := None\<rparr>,
                         tasks := (tasks w1)[t := (tasks w1 ! t)\<lparr>phase := Finished\<rparr>]\<rparr>)))
      else w)"

text \<open>
  \<open>task.cancel()\<close> followed by \<open>await task\<close>, with the \<open>CancelledError\<close> swallowed. A task
  that has not started never runs. A running API task is left through the \<open>finally\<close>
  clauses: its service is then as its \<open>run\<close> leaves it, where \<open>met\<close> is what that run
  has met up to its cancellation, and the handler's reference is cleared. A running
  agent task ends; the \<open>finally\<close> clause of its generator may run later. A task that has
  ended is only awaited.
\<close>

definition cancel_and_await :: "run_env \<Rightarrow> nat \<Rightarrow> world \<Rightarrow> world" where
  "cancel_and_await met t w =
     (if t < length (tasks w) then
        (case phase (tasks w ! t) of
           Pending \<Rightarrow> w\<lparr>tasks := (tasks w)[t := (tasks w ! t)\<lparr>phase := Cancelled\<rparr>]\<rparr>
         | Running \<Rightarrow>
             (case work (tasks w ! t) of
                RunAgent \<Rightarrow> w\<lparr>tasks := (tasks w)[t := (tasks w ! t)\<lparr>phase := Cancelled\<rparr>]\<rparr>
              | RunApi endpoint \<Rightarrow>
                  (case (flow_of endpoint, runs_on (tasks w ! t)) of
                     (Some f, Some r) \<Rightarrow>
                       w\<lparr>apis := (apis w)(r := final (run f met new_service)),
                         hnd := (hnd w)\<lparr>api_service := None\<rparr>,
                         tasks := (tasks w)[t := (tasks w ! t)\<lparr>phase := Cancelled\<rparr>]\<rparr>
                   | _ \<Rightarrow>
                       w\<lparr>hnd := (hnd w)\<lparr>api_service := None\<rparr>,
                         tasks := (tasks w)[t := (tasks w ! t)\<lparr>phase := Cancelled\<rparr>]\<rparr>))
         | Finished \<Rightarrow> w
         | Cancelled \<Rightarrow> w)
      else w)"

text \<open>
  \<open>_stop_agent\<close>: \<open>stop()\<close> on the agent service and on the API service when they are
  held, then each task handle that is held is cancelled and awaited, then the status
  message.
\<close>

definition stop_services :: "run_env \<Rightarrow> world \<Rightarrow> world" where
  "stop_services met w =
     (let w1 = (case agent_service (hnd w) of
                  None \<Rightarrow> w
                | Some r \<Rightarrow> w\<lparr>agents := (agents w)(r := (agents w r)\<lparr>is_running := False\<rparr>)\<rparr>)
      in case api_service (hnd w1) of
           None \<Rightarrow> w1
         | Some r \<Rightarrow> w1\<lparr>apis := (apis w1)(r := stop (now met) (apis w1 r))\<rparr>)"

definition settle :: "run_env \<Rightarrow> nat option \<Rightarrow> world \<Rightarrow> world" where
  "settle met handle w = (case handle of None \<Rightarrow> w | Some t \<Rightarrow> cancel_and_await met t w)"

definition stop_agent :: "(nat \<Rightarrow> real) \<Rightarrow> run_env \<Rightarrow> world \<Rightarrow> world" where
  "stop_agent clock met w =
     (let w1 = stop_services met w;
          w2 = settle met (agent_task (hnd w1)) w1;
          w3 = settle met (api_task (hnd w2)) w2
      in send_json clock STATUS (StatusPayload ''stopped'' (Plain ''Stopped by user'')) w3)"

text \<open>
  \<open>_handle_message\<close>. The message is the dict decoded from the frame. Only the lookup of
  the endpoint can raise, when the payload is not a dict.
\<close>

definition handle_message ::
  "(nat \<Rightarrow> real) \<Rightarrow> run_env \<Rightarrow> (string \<times> pyval) list \<Rightarrow> world \<Rightarrow> exn + world" where
  "handle_message clock met msg w =
     (let msg_type = map_of msg ''type'' in
      if msg_type = Some (PStr (type_value START_AGENT)) then Inr (start_agent clock w)
      else if msg_type = Some (PStr (type_value STOP_AGENT)) then Inr (stop_agent clock met w)
      else if msg_type = Some (PStr (type_value RUN_API)) then
        (case py_get (case map_of msg ''payload'' of None \<Rightarrow> PDict [] | Some p \<Rightarrow> p)
                ''endpoint'' (PStr []) of
           Inl e \<Rightarrow> Inl e
         | Inr endpoint \<Rightarrow> Inr (run_api clock endpoint w))
      else Inr w)"

definition variant_of :: "flow \<Rightarrow> variant" where
  "variant_of f = (case f of BusAPI \<Rightarrow> bus_variant | ContingencyAPI \<Rightarrow> contingency_multi_variant)"

text \<open>
  The soft failures of the oracle call, that is the ways in which an extraction function
  returns without a parsed document: the \<open>except\<close> clause for a status error, the
  \<open>except\<close> clause for any other \<open>Exception\<close> raised in the \<open>try\<close> block (by the
  transport, by \<open>response.json()\<close>, by a body of another shape, by the parse of a
  matched block), the return for an empty response and the return for a text that no
  strategy parses. The value is the result the function returns then.
\<close>

definition soft_failure :: "variant \<Rightarrow> completion \<Rightarrow> request \<Rightarrow> pyval option" where
  "soft_failure v post req =
     (case call_oracle v post req of
        Inl (HTTPStatusError code m) \<Rightarrow> Some (error_result v (''API error: '' @ str_nat code))
      | Inl e \<Rightarrow> if is_Exception e then Some (error_result v (str_exn e)) else None
      | Inr d \<Rightarrow>
          if d = error_result v ''Empty response from Anthropic''
             \<or> (case oracle_text post req of
                   Some reply \<Rightarrow> d = failure_shape v reply
                 | None \<Rightarrow> False)
          then Some d else None)"

section \<open>Concrete inputs\<close>

text \<open>An oracle that answers every request with one content block holding the text.\<close>

definition answers :: "string \<Rightarrow> completion" where
  "answers txt req =
     Inr \<lparr>status_error = None,
          json_body = Inr (PDict [(''content'',
            PList [PDict [(''type'', PStr ''text''), (''text'', PStr txt)]])])\<rparr>"

definition fails_with :: "nat \<Rightarrow> completion" where
  "fails_with code req = Inr \<lparr>status_error = Some (code, ''''), json_body = Inr PNone\<rparr>"

text \<open>Three channels, the second of which throws on send.\<close>

definition second_fails :: "nat \<Rightarrow> nat \<Rightarrow> exn + unit" where
  "second_fails i c = (if c = 2 then Inl (PyException ''connection closed'') else Inr ())"

text \<open>Three screenshots written at times 30, 10 and 20.\<close>

definition shots :: trajectory where
  "shots = \<lparr>path_exists = True,
     pngs = [\<lparr>path = ''t/a.png'', mtime = Inr 30, content = Inr ''A''\<rparr>,
             \<lparr>path = ''t/b.png'', mtime = Inr 10, content = Inr ''B''\<rparr>,
             \<lparr>path = ''t/c.png'', mtime = Inr 20, content = Inr ''C''\<rparr>]\<rparr>"

definition fresh_service :: service where
  "fresh_service = \<lparr>computer = False, is_running = False, logs = [], final_screenshot = None,
     log_callback = False, streamed = [], trajectory_path = None, posted = []\<rparr>"

text \<open>
  A run in which every step succeeds, the agent performs one action, the trajectory
  directory stays empty and the oracle answers every request with status 500.
\<close>

definition calm_env :: run_env where
  "calm_env =
     \<lparr>now = (\<lambda>n. 0), anthropic_api_key = ''key'', trajectory_base = ''trajectories'',
      run_id = ''20250101_000000'', computer_ctor = Inr (), computer_run = (False, Inr ()),
      makedirs = Inr (), agent_ctor = Inr (),
      agent_steps = [(False, Output [ComputerCall ''screenshot''])],
      agent_end = (False, None),
      trajectory_dir = \<lparr>path_exists = True, pngs = []\<rparr>,
      extract_stop = False, anthropic_post = fails_with 500,
      computer_disconnect = (False, Inr ())\<rparr>"

text \<open>The calm run with a sandbox that cannot be reached, and with a cancelled connect.\<close>

definition unreachable_env :: run_env where
  "unreachable_env = calm_env\<lparr>computer_run := (False, Inl (PyException ''sandbox unreachable''))\<rparr>"

definition cancelled_env :: run_env where
  "cancelled_env = calm_env\<lparr>computer_run := (False, Inl CancelledError)\<rparr>"

text \<open>The calm run with the three screenshots in its trajectory directory.\<close>

definition shots_env :: run_env where
  "shots_env = calm_env\<lparr>trajectory_dir := shots\<rparr>"

text \<open>A session that has just been opened.\<close>

definition new_world :: world where
  "new_world =
     \<lparr>hnd = \<lparr>agent_service = None, api_service = None, agent_task = None, api_task = None\<rparr>,
      agents = (\<lambda>r. \<lparr>computer = False, is_running = False, step_count = 0\<rparr>),
      agent_count = 0, apis = (\<lambda>r. new_service), api_count = 0, tasks = [], sent = []\<rparr>"

text \<open>
  A session in which the agent was started and its task has begun, and one in which the
  bus API was started and its task has begun.
\<close>

definition agent_world :: world where
  "agent_world = task_starts (\<lambda>n. 0) 0 (start_agent (\<lambda>n. 0) new_world)"

definition api_world :: world where
  "api_world = task_starts (\<lambda>n. 0) 0 (run_api (\<lambda>n. 0) (PStr ''buses'') new_world)"

text \<open>
  The calm run, and the run with the three screenshots, when the task is cancelled while
  \<open>run\<close> awaits the disconnect in its \<open>finally\<close> clause.
\<close>

definition cut_off_env :: run_env where
  "cut_off_env = calm_env\<lparr>computer_disconnect := (False, Inl CancelledError)\<rparr>"

definition cut_off_shots_env :: run_env where
  "cut_off_shots_env = shots_env\<lparr>computer_disconnect := (False, Inl CancelledError)\<rparr>"

text \<open>
  A session in which two start commands were handled before the task of the first took
  its first step, and then both tasks did; and the same with two \<open>run_api\<close> commands.
\<close>

definition raced_world :: world where
  "raced_world =
     task_starts (\<lambda>n. 0) 1 (task_starts (\<lambda>n. 0) 0
       (start_agent (\<lambda>n. 0) (start_agent (\<lambda>n. 0) new_world)))"

definition raced_api_world :: world where
  "raced_api_world =
     task_starts (\<lambda>n. 0) 1 (task_starts (\<lambda>n. 0) 0
       (run_api (\<lambda>n. 0) (PStr ''buses'') (run_api (\<lambda>n. 0) (PStr ''buses'') new_world)))"

text \<open>Oracles that fail in other ways: the transport raises; the content is empty.\<close>

definition times_out :: completion where
  "times_out req = Inl (PyException ''timed out'')"

definition answers_nothing :: completion where
  "answers_nothing req =
     Inr \<lparr>status_error = None, json_body = Inr (PDict [(''content'', PList [])])\<rparr>"

section \<open>Properties of the registry\<close>

lemma is_Exception_iff: "is_Exception e \<longleftrightarrow> e \<noteq> CancelledError"
  by (cases e) simp_all

lemma broadcast_loop_settled:
  "list_all (\<lambda>(i, c). send i c \<noteq> Inl CancelledError) (enumerate i cs) \<Longrightarrow>
   broadcast_loop send i cs served disconnected =
     (None, served @ reachable send i cs, disconnected @ unreachable send i cs)"
proof (induction cs arbitrary: i served disconnected)
  case Nil
  show ?case by simp
next
  case (Cons c cs)
  from Cons.prems have here: "send i c \<noteq> Inl CancelledError"
    and later: "list_all (\<lambda>(i, c). send i c \<noteq> Inl CancelledError) (enumerate (Suc i) cs)"
    by simp_all
  show ?case
  proof (cases "send i c")
    case (Inl e)
    with here have "is_Exception e" by (simp add: is_Exception_iff)
    with Inl Cons.IH [OF later] show ?thesis by simp
  next
    case (Inr u)
    with Cons.IH [OF later] show ?thesis by simp
  qed
qed

lemma reachable_subset: "set (reachable send i cs) \<subseteq> set cs"
  by (induction cs arbitrary: i) (auto split: sum.splits)

lemma unreachable_subset: "set (unreachable send i cs) \<subseteq> set cs"
  by (induction cs arbitrary: i) (auto split: sum.splits)

lemma reachable_unreachable_disjoint:
  "distinct cs \<Longrightarrow> set (reachable send i cs) \<inter> set (unreachable send i cs) = {}"
proof (induction cs arbitrary: i)
  case Nil
  show ?case by simp
next
  case (Cons c cs)
  have "c \<notin> set (reachable send (Suc i) cs)" "c \<notin> set (unreachable send (Suc i) cs)"
    using Cons.prems reachable_subset [of send "Suc i" cs]
      unreachable_subset [of send "Suc i" cs] by auto
  with Cons show ?case by (auto split: sum.splits)
qed

lemma fold_disconnect_filter:
  "distinct cs \<Longrightarrow> fold disconnect ds cs = filter (\<lambda>c. c \<notin> set ds) cs"
proof (induction ds arbitrary: cs)
  case Nil
  show ?case by simp
next
  case (Cons d ds)
  have step: "disconnect d cs = filter (\<lambda>c. c \<noteq> d) cs"
    using Cons.prems
    by (auto simp: disconnect_def distinct_remove1_removeAll removeAll_filter_not_eq
        intro: filter_cong filter_True [symmetric])
  have "distinct (disconnect d cs)" using Cons.prems by (simp add: step)
  from Cons.IH [OF this] show ?case by (simp add: step conj_commute)
qed

lemma filter_keeps_reachable:
  "distinct cs \<Longrightarrow>
   filter (\<lambda>c. c \<notin> set (unreachable send i cs)) cs = reachable send i cs"
proof (induction cs arbitrary: i)
  case Nil
  show ?case by simp
next
  case (Cons c cs)
  have notin: "c \<notin> set (unreachable send (Suc i) cs)"
    using Cons.prems unreachable_subset [of send "Suc i" cs] by auto
  have rest: "filter (\<lambda>x. x \<noteq> c \<and> x \<notin> set (unreachable send (Suc i) cs)) cs
      = filter (\<lambda>x. x \<notin> set (unreachable send (Suc i) cs)) cs"
    using Cons.prems by (auto intro: filter_cong)
  show ?case using Cons notin rest by (auto split: sum.splits)
qed

text \<open>
  C9. A broadcast over a registry of distinct channels, none of whose sends is cut short
  by a cancellation, attempts every channel: the channels that received the message are
  exactly those whose send succeeded, whatever the others did, every channel whose send
  failed is gone from the registry afterwards, and every other channel is still there.
\<close>

theorem broadcast_delivers_and_unregisters:
  assumes "distinct cs" and "sends_settle send cs"
  shows "raised (broadcast send cs) = None
       \<and> delivered (broadcast send cs) = reachable send 0 cs
       \<and> registry (broadcast send cs) = reachable send 0 cs
       \<and> set (reachable send 0 cs) \<union> set (unreachable send 0 cs) = set cs
       \<and> set (registry (broadcast send cs)) \<inter> set (unreachable send 0 cs) = {}"
proof -
  have loop: "broadcast_loop send 0 cs [] [] =
      (None, reachable send 0 cs, unreachable send 0 cs)"
    using broadcast_loop_settled [of send 0 cs "[]" "[]"] assms(2)
    by (simp add: sends_settle_def)
  have reg: "registry (broadcast send cs) = reachable send 0 cs"
    using assms(1)
    by (simp add: broadcast_def loop fold_disconnect_filter filter_keeps_reachable)
  have cover: "set (reachable send i cs) \<union> set (unreachable send i cs) = set cs" for i
    by (induction cs arbitrary: i) (auto split: sum.splits)
  show ?thesis
    using reg cover [of 0] reachable_unreachable_disjoint [OF assms(1), of send 0]
    by (simp add: broadcast_def loop)
qed


theorem broadcast_delivers_and_unregisters_witness:
  "distinct [1, 2, 3 :: nat] \<and> sends_settle second_fails [1, 2, 3]
   \<and> delivered (broadcast second_fails [1, 2, 3]) = [1, 3]
   \<and> registry (broadcast second_fails [1, 2, 3]) = [1, 3]
   \<and> raised (broadcast second_fails [1, 2, 3]) = None"
proof -
  have d: "distinct [1, 2, 3 :: nat]" by simp
  have s: "sends_settle second_fails [1, 2, 3]"
    by (simp add: sends_settle_def second_fails_def)
  have r: "reachable second_fails 0 [1, 2, 3] = [1, 3]"
    by (simp add: second_fails_def)
  from broadcast_delivers_and_unregisters [OF d s]
  have a: "raised (broadcast second_fails [1, 2, 3]) = None"
    "delivered (broadcast second_fails [1, 2, 3]) = reachable second_fails 0 [1, 2, 3]"
    "registry (broadcast second_fails [1, 2, 3]) = reachable second_fails 0 [1, 2, 3]"
    by blast+
  show ?thesis unfolding a r using d s by simp
qed


section \<open>Properties of artifact selection\<close>

lemma getmtimes_readable:
  "list_all readable fs \<Longrightarrow> getmtimes fs = Inr (map (\<lambda>f. (f, mtime_of f)) fs)"
  by (induction fs) (auto simp: readable_def mtime_of_def split: sum.splits)

lemma read_all_readable:
  "list_all readable fs \<Longrightarrow> read_all fs = Inr (map (\<lambda>f. data_url (bytes_of f)) fs)"
  by (induction fs) (auto simp: readable_def bytes_of_def split: sum.splits)

lemma py_max_mem: "py_max (m, mv) kvs = m \<or> py_max (m, mv) kvs \<in> fst ` set kvs"
  by (induction "(m, mv)" kvs arbitrary: m mv rule: py_max.induct) auto

lemma py_max_greatest:
  assumes "\<forall>(x, v) \<in> set ((m, mv) # kvs). v = k x"
  shows "\<forall>x \<in> insert m (fst ` set kvs). k x \<le> k (py_max (m, mv) kvs)"
  using assms
proof (induction "(m, mv)" kvs arbitrary: m mv rule: py_max.induct)
  case (1 m mv)
  show ?case by simp
next
  case (2 m mv x v rest)
  show ?case
  proof (cases "v > mv")
    case True
    have "\<forall>y \<in> insert x (fst ` set rest). k y \<le> k (py_max (x, v) rest)"
      using 2(1) [OF True] 2(3) by auto
    moreover have "k m \<le> k x" using True 2(3) by auto
    ultimately show ?thesis using True by auto
  next
    case False
    have "\<forall>y \<in> insert m (fst ` set rest). k y \<le> k (py_max (m, mv) rest)"
      using 2(2) [OF False] 2(3) by auto
    moreover have "k x \<le> k m" using False 2(3) by auto
    ultimately show ?thesis using False by auto
  qed
qed

lemma insort_key_paired:
  "insort_key snd (x, k x) (map (\<lambda>f. (f, k f)) ys) = map (\<lambda>f. (f, k f)) (insort_key k x ys)"
  by (induction ys) simp_all

lemma sort_key_paired:
  "sort_key snd (map (\<lambda>f. (f, k f)) xs) = map (\<lambda>f. (f, k f)) (sort_key k xs)"
  by (induction xs) (simp_all add: insort_key_paired)

text \<open>
  C8. When the trajectory directory holds at least one PNG file, every file can be read
  and the modification times are distinct, \<open>_get_latest_screenshot\<close> returns the data URL
  of a file of the directory whose modification time is the greatest, and
  \<open>_get_all_screenshots\<close> returns the data URLs of all the files, each once, in ascending
  order of modification time.
\<close>

theorem artifact_selection:
  assumes "\<not> no_path (trajectory_path s)" and "path_exists dir" and "pngs dir \<noteq> []"
    and "list_all readable (pngs dir)" and "distinct (map mtime_of (pngs dir))"
  shows "(\<exists>latest \<in> set (pngs dir).
           (\<forall>f \<in> set (pngs dir). mtime_of f \<le> mtime_of latest)
           \<and> fst (get_latest_screenshot clock dir s) = Inr (Some (data_url (bytes_of latest))))
       \<and> (\<exists>sorted_files.
           mset sorted_files = mset (pngs dir)
           \<and> sorted (map mtime_of sorted_files)
           \<and> distinct (map mtime_of sorted_files)
           \<and> fst (get_all_screenshots clock dir s)
               = Inr (map (\<lambda>f. data_url (bytes_of f)) sorted_files))"
proof (intro conjI)

  obtain f fs where fs: "pngs dir = f # fs" using assms(3) by (cases "pngs dir") auto
  let ?kvs = "map (\<lambda>f. (f, mtime_of f)) fs"
  let ?latest = "py_max (f, mtime_of f) ?kvs"
  have keys: "getmtimes (pngs dir) = Inr ((f, mtime_of f) # ?kvs)"
    using getmtimes_readable [OF assms(4)] fs by simp
  have mem: "?latest \<in> set (pngs dir)"
    using py_max_mem [of f "mtime_of f" ?kvs] fs by (auto simp: image_iff)
  have great: "\<forall>g \<in> set (pngs dir). mtime_of g \<le> mtime_of ?latest"
    using py_max_greatest [of f "mtime_of f" ?kvs mtime_of] fs by (auto simp: image_iff)
  have rd: "content ?latest = Inr (bytes_of ?latest)"
    using assms(4) mem by (auto simp: list_all_iff readable_def bytes_of_def)
  have "fst (get_latest_screenshot clock dir s) = Inr (Some (data_url (bytes_of ?latest)))"
    using assms(1,2,3) keys rd by (simp add: get_latest_screenshot_def Let_def)
  with mem great show "\<exists>latest \<in> set (pngs dir).
           (\<forall>f \<in> set (pngs dir). mtime_of f \<le> mtime_of latest)
           \<and> fst (get_latest_screenshot clock dir s) = Inr (Some (data_url (bytes_of latest)))"
    by blast
next
  let ?kvs = "map (\<lambda>f. (f, mtime_of f)) (pngs dir)"
  let ?sorted = "map fst (sort_key snd ?kvs)"
  have keys: "getmtimes (pngs dir) = Inr ?kvs"
    using getmtimes_readable [OF assms(4)] .
  let ?files = "sort_key mtime_of (pngs dir)"
  have same: "sort_key snd ?kvs = map (\<lambda>f. (f, mtime_of f)) ?files"
    by (rule sort_key_paired)
  have fst_same: "map fst (sort_key snd ?kvs) = ?files"
    by (simp add: same comp_def)
  have "list_all readable ?files" using assms(4) by (simp add: list_all_iff)
  from read_all_readable [OF this]
  have rd: "read_all ?files = Inr (map (\<lambda>f. data_url (bytes_of f)) ?files)" .
  have res: "fst (get_all_screenshots clock dir s)
      = Inr (map (\<lambda>f. data_url (bytes_of f)) ?files)"
    using assms(1,2,3) keys rd by (simp add: get_all_screenshots_def fst_same)
  have "mset (map mtime_of ?files) = mset (map mtime_of (pngs dir))" by simp
  then have dist: "distinct (map mtime_of ?files)"
    using assms(5) mset_eq_imp_distinct_iff by blast
  have "mset ?files = mset (pngs dir)" "sorted (map mtime_of ?files)" by simp_all
  with dist res show "\<exists>sorted_files.
           mset sorted_files = mset (pngs dir)
           \<and> sorted (map mtime_of sorted_files)
           \<and> distinct (map mtime_of sorted_files)
           \<and> fst (get_all_screenshots clock dir s)
               = Inr (map (\<lambda>f. data_url (bytes_of f)) sorted_files)"
    by blast
qed


theorem artifact_selection_witness:
  "\<not> no_path (trajectory_path (fresh_service\<lparr>trajectory_path := Some ''t''\<rparr>))
   \<and> path_exists shots \<and> pngs shots \<noteq> [] \<and> list_all readable (pngs shots)
   \<and> distinct (map mtime_of (pngs shots))
   \<and> (\<exists>latest \<in> set (pngs shots).
         (\<forall>f \<in> set (pngs shots). mtime_of f \<le> mtime_of latest)
         \<and> fst (get_latest_screenshot (\<lambda>n. 0) shots
                  (fresh_service\<lparr>trajectory_path := Some ''t''\<rparr>))
             = Inr (Some (data_url (bytes_of latest))))
   \<and> fst (get_latest_screenshot (\<lambda>n. 0) shots (fresh_service\<lparr>trajectory_path := Some ''t''\<rparr>))
       = Inr (Some (data_url ''A''))
   \<and> fst (get_all_screenshots (\<lambda>n. 0) shots (fresh_service\<lparr>trajectory_path := Some ''t''\<rparr>))
       = Inr [data_url ''B'', data_url ''C'', data_url ''A'']"
proof -
  let ?s = "fresh_service\<lparr>trajectory_path := Some ''t''\<rparr>"
  have h1: "\<not> no_path (trajectory_path ?s)" by (simp add: no_path_def fresh_service_def)
  have h2: "path_exists shots" and h3: "pngs shots \<noteq> []" by (simp_all add: shots_def)
  have h4: "list_all readable (pngs shots)" by (simp add: shots_def readable_def)
  have h5: "distinct (map mtime_of (pngs shots))" by (simp add: shots_def mtime_of_def)
  have latest: "fst (get_latest_screenshot (\<lambda>n. 0) shots ?s) = Inr (Some (data_url ''A''))"
    by (simp add: get_latest_screenshot_def no_path_def fresh_service_def shots_def Let_def)
  have all: "fst (get_all_screenshots (\<lambda>n. 0) shots ?s)
      = Inr [data_url ''B'', data_url ''C'', data_url ''A'']"
    by (simp add: get_all_screenshots_def no_path_def fresh_service_def shots_def)
  from artifact_selection [OF h1 h2 h3 h4 h5, of "\<lambda>n. 0"] h1 h2 h3 h4 h5 latest all
  show ?thesis by blast
qed


section \<open>Properties of the extraction pipeline\<close>

lemma call_oracle_text:
  "oracle_text post req = Some txt \<Longrightarrow> call_oracle v post req = parse_response v (PStr txt)"
  by (auto simp: oracle_text_def call_oracle_def raise_for_status_def
      split: sum.splits option.splits pyval.splits)

lemma parse_response_unparsed:
  assumes "json_loads txt = Inl (JSONDecodeError m)"
    and "search FENCED txt = None" and "search (third_pattern v) txt = None"
  shows "parse_response v (PStr txt) = Inr (failure_shape v txt)"
  using assms by (simp add: parse_response_def)

lemma extract_data_status_error:
  assumes "post (request_for v screenshots api_key) = Inr resp"
    and "status_error resp = Some (code, body)"
  shows "extract_data v post screenshots api_key
       = Inr (error_result v (''API error: '' @ str_nat code))"
  using assms by (simp add: extract_data_def call_oracle_def raise_for_status_def)

lemma extract_data_unparsed:
  assumes "oracle_text post (request_for v screenshots api_key) = Some txt"
    and "json_loads txt = Inl (JSONDecodeError m)"
    and "search FENCED txt = None" and "search (third_pattern v) txt = None"
  shows "extract_data v post screenshots api_key = Inr (failure_shape v txt)"
  using call_oracle_text [OF assms(1), of v] parse_response_unparsed [OF assms(2,3,4)]
  by (simp add: extract_data_def)

text \<open>
  C1. The oracle answers with the text \<open>42\<close>, which is a JSON document: the direct parse
  succeeds and \<open>extract_grid_data\<close> returns the integer 42, which is not a dictionary.
\<close>

theorem extract_grid_data_returns_int:
  "extract_grid_data (answers ''42'') ''QUJD'' ''key'' = Inr (PInt 42)"
  by code_simp

text \<open>
  C2. The oracle answers with a fenced block whose content is not JSON. The direct parse
  fails, the fenced pattern matches, the parse of its group raises inside the handler of
  the first failure, and the outer handler turns that into an error result that carries
  the message of the decoder and no \<open>raw_response\<close>; the third pattern is never tried.
\<close>

theorem extract_bus_data_fenced_garbage:
  "extract_bus_data (answers ''```{x}```'') ''QUJD'' ''key'' =
     Inr (PDict [(''buses'', PList []),
       (''error'', PStr ''Expecting property name enclosed in double quotes: line 1 column 2 (char 1)'')])
   \<and> json_loads ''```{x}```'' = Inl (JSONDecodeError ''Expecting value: line 1 column 1 (char 0)'')
   \<and> search FENCED ''```{x}```'' = Some (''```{x}```'', Some ''{x}'')
   \<and> json_loads ''{x}''
       = Inl (JSONDecodeError ''Expecting property name enclosed in double quotes: line 1 column 2 (char 1)'')
   \<and> search (KEYED_LIST ''buses'') ''```{x}```'' = None"
  by code_simp


section \<open>Properties of a job run\<close>

lemma log_entry_frame [simp]:
  "is_running (log_entry c m l s) = is_running s"
  "computer (log_entry c m l s) = computer s"
  "trajectory_path (log_entry c m l s) = trajectory_path s"
  "posted (log_entry c m l s) = posted s"
  "final_screenshot (log_entry c m l s) = final_screenshot s"
  "logs (log_entry c m l s)
     = logs s @ [\<lparr>timestamp = c (length (logs s)), message = m, level = l\<rparr>]"
  by (simp_all add: log_entry_def Let_def)

lemma info_frame [simp]:
  "is_running (info env m s) = is_running s"
  "computer (info env m s) = computer s"
  "trajectory_path (info env m s) = trajectory_path s"
  "posted (info env m s) = posted s"
  "final_screenshot (info env m s) = final_screenshot s"
  "set (logs s) \<subseteq> set (logs (info env m s))"
  by (auto simp: info_def)

lemma resumed_frame [simp]:
  "is_running (resumed env b s) = (\<not> b \<and> is_running s)"
  "computer (resumed env b s) = computer s"
  "trajectory_path (resumed env b s) = trajectory_path s"
  "posted (resumed env b s) = posted s"
  "final_screenshot (resumed env b s) = final_screenshot s"
  "set (logs s) \<subseteq> set (logs (resumed env b s))"
  by (auto simp: resumed_def stop_def)

lemma log_blocks_frame [simp]:
  "computer (log_blocks env bs s) = computer s"
  "trajectory_path (log_blocks env bs s) = trajectory_path s"
  "posted (log_blocks env bs s) = posted s"
  by (induction bs arbitrary: s) (simp_all add: Let_def)

lemma capture_frame [simp]:
  "computer (capture env outs s) = computer s"
  "trajectory_path (capture env outs s) = trajectory_path s"
  "posted (capture env outs s) = posted s"
  by (induction outs arbitrary: s) simp_all

lemma handle_item_frame:
  "computer (snd (handle_item f env i s)) = computer s
   \<and> trajectory_path (snd (handle_item f env i s)) = trajectory_path s
   \<and> posted (snd (handle_item f env i s)) = posted s"
  by (cases i) (simp_all split: flow.splits)

lemma handle_items_frame:
  "computer (snd (handle_items f env is s)) = computer s
   \<and> trajectory_path (snd (handle_items f env is s)) = trajectory_path s
   \<and> posted (snd (handle_items f env is s)) = posted s"
proof (induction "is" arbitrary: s)
  case Nil
  show ?case by simp
next
  case (Cons i "is")
  obtain r s1 where h: "handle_item f env i s = (r, s1)" by (cases "handle_item f env i s")
  with handle_item_frame [of f env i s]
  have fr: "computer s1 = computer s" "trajectory_path s1 = trajectory_path s"
    "posted s1 = posted s" by simp_all
  show ?case using Cons [of s1] h fr by (cases r) (simp_all add: and_then_def)
qed

lemma consume_frame:
  "computer (snd (consume f env steps s)) = computer s
   \<and> trajectory_path (snd (consume f env steps s)) = trajectory_path s
   \<and> posted (snd (consume f env steps s)) = posted s"
proof (induction steps arbitrary: s)
  case Nil
  show ?case by (simp add: Let_def split: option.splits)
next
  case (Cons step steps)
  obtain b r where step: "step = (b, r)" by (cases step)
  let ?s1 = "resumed env b s"
  show ?case
  proof (cases r)
    case (BadResult e)
    with step show ?thesis by (simp add: Let_def)
  next
    case (Output items)
    obtain q s2 where h: "handle_items f env items ?s1 = (q, s2)"
      by (cases "handle_items f env items ?s1")
    with handle_items_frame [of f env items ?s1]
    have fr: "computer s2 = computer s" "trajectory_path s2 = trajectory_path s"
      "posted s2 = posted s" by simp_all
    show ?thesis using Cons [of s2] h fr step Output
      by (cases q) (simp_all add: Let_def and_then_def del: resumed_frame(1))
  qed
qed

text \<open>Where the loop is reached, the run has a computer and a trajectory directory.\<close>

lemma agent_phase_done:
  assumes "fst (agent_phase f env s) = Inr ()"
  shows "computer (snd (agent_phase f env s))
       \<and> trajectory_path (snd (agent_phase f env s))
           = Some (trajectory_base env @ ''/'' @ trajectory_prefix f @ run_id env)
       \<and> posted (snd (agent_phase f env s)) = posted s"
  using assms consume_frame
  by (auto simp: agent_phase_def initialize_def create_agent_def and_then_def Let_def
      split: sum.splits prod.splits if_splits)

lemma agent_phase_posted: "posted (snd (agent_phase f env s)) = posted s"
  using consume_frame
  by (auto simp: agent_phase_def initialize_def create_agent_def and_then_def Let_def
      split: sum.splits prod.splits if_splits)

lemma run_finally_not_running [simp]: "\<not> is_running (snd (run_finally env m))"
  by (simp add: run_finally_def Let_def split: sum.splits)

lemma run_finally_posted [simp]: "posted (snd (run_finally env m)) = posted (snd m)"
  by (simp add: run_finally_def Let_def split: sum.splits)

lemma run_finally_logs: "set (logs (snd m)) \<subseteq> set (logs (snd (run_finally env m)))"
proof -
  have a: "set (logs s) \<subseteq> set (logs (resumed env b (s\<lparr>is_running := False\<rparr>)))" for s b
    using resumed_frame(6) [of "s\<lparr>is_running := False\<rparr>" env b] by simp
  have b: "set (logs s) \<subseteq> set (logs (info env m' (resumed env b (s\<lparr>is_running := False\<rparr>))))"
    for s b m'
    using a [of s b] info_frame(6) [of "resumed env b (s\<lparr>is_running := False\<rparr>)" env m']
    by blast
  show ?thesis using a b by (auto simp: run_finally_def Let_def split: sum.splits)
qed

lemma run_finally_returns:
  assumes "snd (computer_disconnect env) \<noteq> Inl CancelledError"
  shows "fst (run_finally env m) = fst m"
  using assms
  by (auto simp: run_finally_def Let_def is_Exception_iff split: sum.splits)

lemma run_not_running: "\<not> is_running (final (run f env s))"
proof -
  obtain r s' where h: "run_finally env (run_except env (run_try f env (started s))) = (r, s')"
    by (cases "run_finally env (run_except env (run_try f env (started s)))")
  have "\<not> is_running s'"
    using run_finally_not_running [of env "run_except env (run_try f env (started s))"] h
    by simp
  then show ?thesis using h by (cases r) (simp_all add: run_def)
qed

lemma startswith_contains: "startswith s sub \<Longrightarrow> contains s sub"
  by (cases s; cases sub) simp_all

lemma collect_no_files:
  assumes "pngs (trajectory_dir env) = []"
  shows "\<exists>msg s2. collect_and_extract f env s = (Inr (error_outcome msg s2), s2)
           \<and> startswith msg ''No screenshot'' \<and> posted s2 = posted s"
proof (cases f)
  case BusAPI
  let ?s1 = "(info env ''Task completed, reading screenshot from trajectory...'' s)
               \<lparr>final_screenshot := None\<rparr>"
  let ?msg = "''No screenshot found in trajectory: '' @ str_opt (trajectory_path ?s1)"
  let ?s2 = "log_entry (now env) ?msg ''error'' ?s1"
  have "collect_and_extract f env s = (Inr (error_outcome ?msg ?s2), ?s2)"
    using assms BusAPI
    by (simp add: collect_and_extract_def get_latest_screenshot_def and_then_def Let_def)
  moreover have "startswith ?msg ''No screenshot''" by simp
  moreover have "posted ?s2 = posted s" by simp
  ultimately show ?thesis by blast
next
  case ContingencyAPI
  let ?s1 = "info env ''Task completed, reading screenshots from trajectory...'' s"
  let ?msg = "''No screenshots found in trajectory: '' @ str_opt (trajectory_path ?s1)"
  let ?s2 = "log_entry (now env) ?msg ''error'' ?s1"
  have "collect_and_extract f env s = (Inr (error_outcome ?msg ?s2), ?s2)"
    using assms ContingencyAPI
    by (simp add: collect_and_extract_def get_all_screenshots_def and_then_def Let_def)
  moreover have "startswith ?msg ''No screenshot''" by simp
  moreover have "posted ?s2 = posted s" by simp
  ultimately show ?thesis by blast
qed

text \<open>
  C7, as the code has it. When the run has gone through the agent's stream without an
  exception, the trajectory directory holds no PNG file and the disconnect in the
  \<open>finally\<close> clause is not cancelled, \<open>run\<close> returns a result with status \<open>error\<close> whose
  message contains \<open>No screenshot\<close>, and the run has sent no request to the extraction
  oracle.
\<close>

theorem run_without_screenshots:
  assumes "fst (agent_phase f env (started s)) = Inr ()"
    and "pngs (trajectory_dir env) = []"
    and "snd (computer_disconnect env) \<noteq> Inl CancelledError"
  shows "\<exists>r msg. returned (run f env s) = Inr r \<and> status r = ''error''
           \<and> error r = Some msg \<and> contains msg ''No screenshot''
           \<and> posted (final (run f env s)) = []"
proof -
  obtain s1 where ph: "agent_phase f env (started s) = (Inr (), s1)"
    using assms(1) by (cases "agent_phase f env (started s)") auto
  have p1: "posted s1 = []"
    using agent_phase_posted [of f env "started s"] ph by (simp add: started_def)
  obtain msg s2 where c: "collect_and_extract f env s1 = (Inr (error_outcome msg s2), s2)"
    and sw: "startswith msg ''No screenshot''" and p2: "posted s2 = posted s1"
    using collect_no_files [OF assms(2), of f s1] by blast
  have t: "run_try f env (started s) = (Inr (error_outcome msg s2), s2)"
    by (simp add: run_try_def ph and_then_def c)
  let ?m = "(Inr (error_outcome msg s2), s2)"
  have f1: "fst (run_finally env ?m) = Inr (error_outcome msg s2)"
    using run_finally_returns [OF assms(3), of ?m] by simp
  have f2: "posted (snd (run_finally env ?m)) = []"
    using p1 p2 by simp
  obtain s3 where fin: "run_finally env ?m = (Inr (error_outcome msg s2), s3)"
    and p3: "posted s3 = []"
    using f1 f2 by (cases "run_finally env ?m") auto
  have "returned (run f env s) = Inr ((error_outcome msg s2)\<lparr>result_logs := logs s3\<rparr>)"
    and "final (run f env s) = s3"
    by (simp_all add: run_def t run_except_def fin)
  then show ?thesis
    using p3 startswith_contains [OF sw] by (simp add: error_outcome_def)
qed

theorem run_without_screenshots_witness:
  "fst (agent_phase BusAPI calm_env (started fresh_service)) = Inr ()
   \<and> pngs (trajectory_dir calm_env) = []
   \<and> snd (computer_disconnect calm_env) \<noteq> Inl CancelledError
   \<and> (\<exists>r msg. returned (run BusAPI calm_env fresh_service) = Inr r \<and> status r = ''error''
         \<and> error r = Some msg \<and> contains msg ''No screenshot''
         \<and> posted (final (run BusAPI calm_env fresh_service)) = [])"
proof -
  have h1: "fst (agent_phase BusAPI calm_env (started fresh_service)) = Inr ()"
    by (simp add: agent_phase_def initialize_def create_agent_def and_then_def Let_def
        calm_env_def started_def fresh_service_def info_def log_entry_def resumed_def)
  have h2: "pngs (trajectory_dir calm_env) = []" by (simp add: calm_env_def)
  have h3: "snd (computer_disconnect calm_env) \<noteq> Inl CancelledError"
    by (simp add: calm_env_def)
  from run_without_screenshots [OF h1 h2 h3] h1 h2 h3 show ?thesis by blast
qed

text \<open>
  C4, as the code has it. An exception that derives from \<open>Exception\<close> and is raised in
  the \<open>try\<close> block of \<open>run\<close> does not leave \<open>run\<close>: an entry of level \<open>error\<close> with the
  message is logged and \<open>run\<close> returns a result with status \<open>error\<close>, the message
  of the exception as its error and the logs of the service. The only exception that
  can leave \<open>run\<close> is a cancellation, which \<open>except Exception\<close> does not catch.
\<close>

theorem run_catches_exceptions:
  assumes "fst (run_try f env (started s)) = Inl e" and "is_Exception e"
    and "snd (computer_disconnect env) \<noteq> Inl CancelledError"
  shows "(\<exists>r. returned (run f env s) = Inr r \<and> status r = ''error''
            \<and> error r = Some (str_exn e) \<and> data r = None
            \<and> result_logs r = logs (final (run f env s))
            \<and> (\<exists>entry \<in> set (result_logs r).
                  level entry = ''error'' \<and> message entry = ''Error: '' @ str_exn e))
       \<and> (\<forall>e'. returned (run f env' s') = Inl e' \<longrightarrow> e' = CancelledError)"
proof (intro conjI allI impI)
  obtain s1 where t: "run_try f env (started s) = (Inl e, s1)"
    using assms(1) by (cases "run_try f env (started s)") auto
  let ?s2 = "log_entry (now env) (''Error: '' @ str_exn e) ''error'' s1"
  let ?m = "(Inr (error_outcome (str_exn e) ?s2), ?s2)"
  have x: "run_except env (run_try f env (started s)) = ?m"
    using assms(2) by (simp add: t run_except_def Let_def)
  obtain s3 where fin: "run_finally env ?m = (Inr (error_outcome (str_exn e) ?s2), s3)"
    using run_finally_returns [OF assms(3), of ?m] by (cases "run_finally env ?m") auto
  have "\<lparr>timestamp = now env (length (logs s1)), message = ''Error: '' @ str_exn e,
         level = ''error''\<rparr> \<in> set (logs ?s2)" by simp
  then have mem: "\<lparr>timestamp = now env (length (logs s1)), message = ''Error: '' @ str_exn e,
         level = ''error''\<rparr> \<in> set (logs s3)"
    using run_finally_logs [of ?m env] fin by auto
  have ret: "returned (run f env s)
      = Inr ((error_outcome (str_exn e) ?s2)\<lparr>result_logs := logs s3\<rparr>)"
    and fs: "final (run f env s) = s3"
    using x fin by (simp_all add: run_def)
  show "\<exists>r. returned (run f env s) = Inr r \<and> status r = ''error''
            \<and> error r = Some (str_exn e) \<and> data r = None
            \<and> result_logs r = logs (final (run f env s))
            \<and> (\<exists>entry \<in> set (result_logs r).
                  level entry = ''error'' \<and> message entry = ''Error: '' @ str_exn e)"
    unfolding ret fs using mem by (force simp: error_outcome_def)
next
  fix e'
  assume r: "returned (run f env' s') = Inl e'"
  let ?x = "run_except env' (run_try f env' (started s'))"
  have a: "fst ?x = Inl e'' \<Longrightarrow> e'' = CancelledError" for e''
    by (cases "run_try f env' (started s')")
       (auto simp: run_except_def Let_def is_Exception_iff split: sum.splits if_splits)
  have b: "fst (run_finally env' ?x) = Inl e'' \<Longrightarrow> e'' = CancelledError" for e''
    using a [of e'']
    by (auto simp: run_finally_def Let_def is_Exception_iff split: sum.splits if_splits)
  from r have "fst (run_finally env' ?x) = Inl e'"
    by (cases "run_finally env' ?x") (auto simp: run_def split: sum.splits)
  with b show "e' = CancelledError" by blast
qed

lemma calm_phase_unreachable:
  "fst (run_try BusAPI unreachable_env (started fresh_service))
     = Inl (PyException ''sandbox unreachable'')"
  by (simp add: run_try_def agent_phase_def initialize_def and_then_def Let_def
      unreachable_env_def calm_env_def started_def fresh_service_def info_def log_entry_def
      resumed_def)

theorem run_catches_exceptions_witness:
  "fst (run_try BusAPI unreachable_env (started fresh_service))
     = Inl (PyException ''sandbox unreachable'')
   \<and> is_Exception (PyException ''sandbox unreachable'')
   \<and> snd (computer_disconnect unreachable_env) \<noteq> Inl CancelledError
   \<and> (\<exists>r. returned (run BusAPI unreachable_env fresh_service) = Inr r
         \<and> status r = ''error'' \<and> error r = Some ''sandbox unreachable'')"
proof -
  have h2: "is_Exception (PyException ''sandbox unreachable'')" by simp
  have h3: "snd (computer_disconnect unreachable_env) \<noteq> Inl CancelledError"
    by (simp add: unreachable_env_def calm_env_def)
  from run_catches_exceptions [OF calm_phase_unreachable h2 h3]
  have "\<exists>r. returned (run BusAPI unreachable_env fresh_service) = Inr r
         \<and> status r = ''error'' \<and> error r = Some (str_exn (PyException ''sandbox unreachable''))"
    by blast
  then show ?thesis using calm_phase_unreachable h2 h3 by simp
qed

text \<open>
  The claim as stated fails: a cancellation delivered while \<open>run\<close> awaits the connection
  to the sandbox leaves \<open>run\<close>.
\<close>

theorem run_cancelled_escapes:
  "fst (run_try BusAPI cancelled_env (started fresh_service)) = Inl CancelledError
   \<and> returned (run BusAPI cancelled_env fresh_service) = Inl CancelledError
   \<and> \<not> is_running (final (run BusAPI cancelled_env fresh_service))"
  by (simp add: run_def run_finally_def run_except_def run_try_def agent_phase_def
      initialize_def and_then_def Let_def cancelled_env_def calm_env_def started_def
      fresh_service_def info_def log_entry_def resumed_def)

text \<open>
  The handle on the sandbox is kept to the end of the run, and a cancellation that
  arrives at the disconnect leaves the \<open>finally\<close> clause.
\<close>

lemma get_latest_screenshot_computer:
  "computer (snd (get_latest_screenshot clock dir s)) = computer s"
  by (simp add: get_latest_screenshot_def Let_def split: sum.splits list.splits)

lemma get_all_screenshots_computer:
  "computer (snd (get_all_screenshots clock dir s)) = computer s"
  by (simp add: get_all_screenshots_def Let_def split: sum.splits list.splits)

lemma collect_computer: "computer (snd (collect_and_extract f env s)) = computer s"
proof (cases f)
  case BusAPI
  let ?s0 = "info env ''Task completed, reading screenshot from trajectory...'' s"
  have "computer (snd (get_latest_screenshot (now env) (trajectory_dir env) ?s0)) = computer s"
    by (simp add: get_latest_screenshot_computer)
  then show ?thesis
    using BusAPI
    by (cases "get_latest_screenshot (now env) (trajectory_dir env) ?s0")
       (auto simp: collect_and_extract_def and_then_def Let_def error_outcome_def
             split: sum.splits option.splits if_splits)
next
  case ContingencyAPI
  let ?s0 = "info env ''Task completed, reading screenshots from trajectory...'' s"
  have "computer (snd (get_all_screenshots (now env) (trajectory_dir env) ?s0)) = computer s"
    by (simp add: get_all_screenshots_computer)
  then show ?thesis
    using ContingencyAPI
    by (cases "get_all_screenshots (now env) (trajectory_dir env) ?s0")
       (auto simp: collect_and_extract_def and_then_def Let_def error_outcome_def
             split: sum.splits option.splits if_splits)
qed

lemma run_try_computer:
  assumes "fst (agent_phase f env s) = Inr ()"
  shows "computer (snd (run_try f env s))"
proof -
  obtain s1 where ph: "agent_phase f env s = (Inr (), s1)"
    using assms by (cases "agent_phase f env s") auto
  have "computer s1" using agent_phase_done [OF assms] ph by simp
  then show ?thesis by (simp add: run_try_def ph and_then_def collect_computer)
qed

lemma run_except_computer: "computer (snd m) \<Longrightarrow> computer (snd (run_except env m))"
  by (cases m) (auto simp: run_except_def Let_def split: sum.splits)

lemma run_finally_cancelled:
  assumes "computer (snd m)" and "snd (computer_disconnect env) = Inl CancelledError"
  shows "fst (run_finally env m) = Inl CancelledError"
  using assms by (simp add: run_finally_def Let_def)

lemma get_latest_screenshot_found:
  assumes "\<not> no_path (trajectory_path s)" and "path_exists dir" and "pngs dir \<noteq> []"
    and "list_all readable (pngs dir)"
  shows "\<exists>url s'. get_latest_screenshot clock dir s = (Inr (Some url), s') \<and> url \<noteq> []
           \<and> posted s' = posted s"
proof -
  obtain f fs where fs: "pngs dir = f # fs" using assms(3) by (cases "pngs dir") auto
  let ?kvs = "map (\<lambda>f. (f, mtime_of f)) fs"
  let ?latest = "py_max (f, mtime_of f) ?kvs"
  have keys: "getmtimes (pngs dir) = Inr ((f, mtime_of f) # ?kvs)"
    using getmtimes_readable [OF assms(4)] fs by simp
  have mem: "?latest \<in> set (pngs dir)"
    using py_max_mem [of f "mtime_of f" ?kvs] fs by (auto simp: image_iff)
  have rd: "content ?latest = Inr (bytes_of ?latest)"
    using assms(4) mem by (auto simp: list_all_iff readable_def bytes_of_def)
  let ?s' = "log_entry clock (''Found screenshot: '' @ path ?latest) ''info'' s"
  have "get_latest_screenshot clock dir s = (Inr (Some (data_url (bytes_of ?latest))), ?s')"
    using assms(1,2,3) keys rd by (simp add: get_latest_screenshot_def Let_def)
  moreover have "data_url (bytes_of ?latest) \<noteq> []" by (simp add: data_url_def)
  moreover have "posted ?s' = posted s" by simp
  ultimately show ?thesis by blast
qed

lemma get_all_screenshots_found:
  assumes "\<not> no_path (trajectory_path s)" and "path_exists dir" and "pngs dir \<noteq> []"
    and "list_all readable (pngs dir)"
  shows "\<exists>urls s'. get_all_screenshots clock dir s = (Inr urls, s') \<and> urls \<noteq> []
           \<and> posted s' = posted s"
proof -
  let ?kvs = "map (\<lambda>f. (f, mtime_of f)) (pngs dir)"
  let ?files = "sort_key mtime_of (pngs dir)"
  let ?urls = "map (\<lambda>f. data_url (bytes_of f)) ?files"
  have keys: "getmtimes (pngs dir) = Inr ?kvs"
    using getmtimes_readable [OF assms(4)] .
  have fst_same: "map fst (sort_key snd ?kvs) = ?files"
    by (simp add: sort_key_paired comp_def)
  have "list_all readable ?files" using assms(4) by (simp add: list_all_iff)
  from read_all_readable [OF this] have rd: "read_all ?files = Inr ?urls" .
  let ?s' = "log_entry clock
      (''Found '' @ str_nat (length ?urls) @ '' screenshots in trajectory'') ''info'' s"
  have "get_all_screenshots clock dir s = (Inr ?urls, ?s')"
    using assms(1,2,3) keys rd by (simp add: get_all_screenshots_def fst_same)
  moreover have "length ?urls = length (pngs dir)" by simp
  then have "?urls \<noteq> []" using assms(3) by (metis length_0_conv)
  moreover have "posted ?s' = posted s" by simp
  ultimately show ?thesis by blast
qed

lemma soft_failure_extract:
  assumes "soft_failure v post (request_for v screenshots api_key) = Some d"
  shows "extract_data v post screenshots api_key = Inr d
       \<and> (\<exists>msg rest. d = PDict ((schema_key v, empty_value v) # (''error'', PStr msg) # rest))"
proof (cases "call_oracle v post (request_for v screenshots api_key)")
  case (Inl e)
  with assms show ?thesis
    by (cases e) (auto simp: soft_failure_def extract_data_def error_result_def)
next
  case (Inr res)
  with assms have d: "d = res"
    and shape: "d = error_result v ''Empty response from Anthropic''
       \<or> (\<exists>reply. d = failure_shape v reply)"
    by (auto simp: soft_failure_def split: if_splits option.splits)
  from shape have "\<exists>msg rest. d = PDict ((schema_key v, empty_value v) # (''error'', PStr msg) # rest)"
    by (auto simp: error_result_def failure_shape_def)
  with Inr d show ?thesis by (simp add: extract_data_def)
qed

text \<open>The soft failures include these, whatever the request.\<close>

lemma soft_failure_covers:
  "soft_failure bus_variant (fails_with 500) req
     = Some (PDict [(''buses'', PList []), (''error'', PStr ''API error: 500'')])"
  "soft_failure bus_variant times_out req
     = Some (PDict [(''buses'', PList []), (''error'', PStr ''timed out'')])"
  "soft_failure bus_variant answers_nothing req
     = Some (PDict [(''buses'', PList []), (''error'', PStr ''Empty response from Anthropic'')])"
  "soft_failure bus_variant (answers ''```{x}```'') req
     = Some (PDict [(''buses'', PList []), (''error'',
         PStr ''Expecting property name enclosed in double quotes: line 1 column 2 (char 1)'')])"
  "soft_failure bus_variant (answers ''no json here'') req
     = Some (PDict [(''buses'', PList []), (''error'', PStr ''Could not parse response''),
                    (''raw_response'', PStr ''no json here'')])"
proof -
  have n: "str_nat 500 = ''500''" by code_simp
  show "soft_failure bus_variant (fails_with 500) req
     = Some (PDict [(''buses'', PList []), (''error'', PStr ''API error: 500'')])"
    by (simp add: soft_failure_def call_oracle_def raise_for_status_def fails_with_def
        bus_variant_def error_result_def n)
  show "soft_failure bus_variant times_out req
     = Some (PDict [(''buses'', PList []), (''error'', PStr ''timed out'')])"
    by (simp add: soft_failure_def call_oracle_def times_out_def bus_variant_def
        error_result_def)
  show "soft_failure bus_variant answers_nothing req
     = Some (PDict [(''buses'', PList []), (''error'', PStr ''Empty response from Anthropic'')])"
    by (simp add: soft_failure_def call_oracle_def raise_for_status_def answers_nothing_def
        first_text_def bus_variant_def error_result_def)
  have ft: "first_text (PDict [(''content'',
        PList [PDict [(''type'', PStr ''text''), (''text'', PStr reply)]])])
      = Inr (Some (PStr reply))" for reply
    by (simp add: first_text_def)
  have p1: "parse_response bus_variant (PStr ''```{x}```'')
      = Inl (JSONDecodeError
          ''Expecting property name enclosed in double quotes: line 1 column 2 (char 1)'')"
    by code_simp
  have "soft_failure bus_variant (answers ''```{x}```'') req
     = Some (error_result bus_variant
         ''Expecting property name enclosed in double quotes: line 1 column 2 (char 1)'')"
    by (simp add: soft_failure_def call_oracle_def raise_for_status_def answers_def ft p1)
  then show "soft_failure bus_variant (answers ''```{x}```'') req
     = Some (PDict [(''buses'', PList []), (''error'',
         PStr ''Expecting property name enclosed in double quotes: line 1 column 2 (char 1)'')])"
    by (simp add: error_result_def bus_variant_def)
  have p2: "parse_response bus_variant (PStr ''no json here'')
      = Inr (failure_shape bus_variant ''no json here'')"
    by code_simp
  have ot: "oracle_text (answers ''no json here'') req = Some ''no json here''"
    by (simp add: oracle_text_def raise_for_status_def answers_def ft)
  have "soft_failure bus_variant (answers ''no json here'') req
     = Some (failure_shape bus_variant ''no json here'')"
    by (simp add: soft_failure_def call_oracle_def raise_for_status_def answers_def ft p2 ot)
  then show "soft_failure bus_variant (answers ''no json here'') req
     = Some (PDict [(''buses'', PList []), (''error'', PStr ''Could not parse response''),
                    (''raw_response'', PStr ''no json here'')])"
    by (simp add: failure_shape_def bus_variant_def)
qed

lemma count_of_soft:
  "count_of key (PDict ((key, PList []) # rest)) = Inr 0"
  by (simp add: count_of_def)

lemma collect_soft_failure:
  assumes "\<not> no_path (trajectory_path s)" and "path_exists (trajectory_dir env)"
    and "pngs (trajectory_dir env) \<noteq> []" and "list_all readable (pngs (trajectory_dir env))"
    and "\<forall>screenshots. soft_failure (variant_of f) (anthropic_post env)
           (request_for (variant_of f) screenshots (anthropic_api_key env)) \<noteq> None"
  shows "\<exists>r s' screenshots d. collect_and_extract f env s = (Inr r, s')
           \<and> status r = ''success'' \<and> error r = None \<and> data r = Some d
           \<and> screenshots \<noteq> []
           \<and> soft_failure (variant_of f) (anthropic_post env)
                (request_for (variant_of f) screenshots (anthropic_api_key env)) = Some d
           \<and> posted s' = posted s
                @ [request_for (variant_of f) screenshots (anthropic_api_key env)]"
proof (cases f)
  case BusAPI
  let ?s0 = "info env ''Task completed, reading screenshot from trajectory...'' s"
  have np: "\<not> no_path (trajectory_path ?s0)" using assms(1) by simp
  obtain url s1 where g: "get_latest_screenshot (now env) (trajectory_dir env) ?s0
      = (Inr (Some url), s1)" and u: "url \<noteq> []" and p: "posted s1 = posted s"
    using get_latest_screenshot_found [OF np assms(2,3,4), of "now env"] by auto
  let ?req = "request_for bus_variant [url] (anthropic_api_key env)"
  obtain d where sf: "soft_failure bus_variant (anthropic_post env) ?req = Some d"
    using assms(5) BusAPI by (auto simp: variant_of_def)
  from soft_failure_extract [OF sf] obtain msg rest
    where e: "extract_bus_data (anthropic_post env) url (anthropic_api_key env) = Inr d"
      and d: "d = PDict ((''buses'', PList []) # (''error'', PStr msg) # rest)"
    by (auto simp: extract_bus_data_def bus_variant_def)
  have c: "count_of ''buses'' d = Inr 0" unfolding d by (rule count_of_soft)
  let ?s2 = "info env ''Sending screenshot to Anthropic for analysis...''
               (s1\<lparr>final_screenshot := Some url\<rparr>)"
  let ?s3 = "resumed env (extract_stop env) (?s2\<lparr>posted := posted ?s2 @ [?req]\<rparr>)"
  let ?s4 = "info env (''Extracted '' @ str_nat 0 @ '' buses'') ?s3"
  let ?r = "\<lparr>status = ''success'', data = Some d, error = None, result_logs = logs ?s4,
             result_screenshot = final_screenshot ?s4\<rparr>"
  have "collect_and_extract f env s = (Inr ?r, ?s4)"
    using BusAPI g u e c by (simp add: collect_and_extract_def and_then_def Let_def)
  moreover have "posted ?s4 = posted s
      @ [request_for (variant_of f) [url] (anthropic_api_key env)]"
    using p BusAPI by (simp add: variant_of_def)
  moreover have "soft_failure (variant_of f) (anthropic_post env)
      (request_for (variant_of f) [url] (anthropic_api_key env)) = Some d"
    using sf BusAPI by (simp add: variant_of_def)
  moreover have "status ?r = ''success''" "error ?r = None" "data ?r = Some d" by simp_all
  moreover have "[url] \<noteq> []" by simp
  ultimately show ?thesis by blast
next
  case ContingencyAPI
  let ?s0 = "info env ''Task completed, reading screenshots from trajectory...'' s"
  have np: "\<not> no_path (trajectory_path ?s0)" using assms(1) by simp
  obtain urls s1 where g: "get_all_screenshots (now env) (trajectory_dir env) ?s0
      = (Inr urls, s1)" and u: "urls \<noteq> []" and p: "posted s1 = posted s"
    using get_all_screenshots_found [OF np assms(2,3,4), of "now env"] by auto
  let ?req = "request_for contingency_multi_variant urls (anthropic_api_key env)"
  obtain d where sf: "soft_failure contingency_multi_variant (anthropic_post env) ?req = Some d"
    using assms(5) ContingencyAPI by (auto simp: variant_of_def)
  from soft_failure_extract [OF sf] obtain msg rest
    where e: "extract_contingency_data_multi (anthropic_post env) urls (anthropic_api_key env)
        = Inr d"
      and d: "d = PDict ((''contingencies'', PList []) # (''error'', PStr msg) # rest)"
    by (auto simp: extract_contingency_data_multi_def contingency_multi_variant_def)
  have c: "count_of ''contingencies'' d = Inr 0" unfolding d by (rule count_of_soft)
  let ?s2 = "info env (''Sending '' @ str_nat (length urls)
                         @ '' screenshots to Anthropic for analysis...'') s1"
  let ?s3 = "resumed env (extract_stop env) (?s2\<lparr>posted := posted ?s2 @ [?req]\<rparr>)"
  let ?s4 = "info env (''Extracted '' @ str_nat 0 @ '' contingencies'') ?s3"
  let ?r = "\<lparr>status = ''success'', data = Some d, error = None, result_logs = logs ?s4,
             result_screenshot = Some (last urls)\<rparr>"
  have "collect_and_extract f env s = (Inr ?r, ?s4)"
    using ContingencyAPI g u e c by (simp add: collect_and_extract_def and_then_def Let_def)
  moreover have "posted ?s4 = posted s
      @ [request_for (variant_of f) urls (anthropic_api_key env)]"
    using p ContingencyAPI by (simp add: variant_of_def)
  moreover have "soft_failure (variant_of f) (anthropic_post env)
      (request_for (variant_of f) urls (anthropic_api_key env)) = Some d"
    using sf ContingencyAPI by (simp add: variant_of_def)
  moreover have "status ?r = ''success''" "error ?r = None" "data ?r = Some d" by simp_all
  ultimately show ?thesis using u by blast
qed




text \<open>
  The claim of C7 as stated fails in the same way: with an empty directory, the
  cancellation of the disconnect leaves \<open>run\<close>.
\<close>

theorem run_without_screenshots_cancelled:
  "fst (agent_phase BusAPI cut_off_env (started fresh_service)) = Inr ()
   \<and> pngs (trajectory_dir cut_off_env) = []
   \<and> returned (run BusAPI cut_off_env fresh_service) = Inl CancelledError"
proof -
  have d: "snd (computer_disconnect cut_off_env) = Inl CancelledError"
    by (simp add: cut_off_env_def)
  have h1: "fst (agent_phase BusAPI cut_off_env (started fresh_service)) = Inr ()"
    by (simp add: agent_phase_def initialize_def create_agent_def and_then_def Let_def
        cut_off_env_def calm_env_def started_def fresh_service_def info_def log_entry_def
        resumed_def)
  have h2: "pngs (trajectory_dir cut_off_env) = []"
    by (simp add: cut_off_env_def calm_env_def)
  have c: "computer (snd (run_except cut_off_env
      (run_try BusAPI cut_off_env (started fresh_service))))"
    using run_try_computer [OF h1] by (rule run_except_computer)
  obtain a s' where rf: "run_finally cut_off_env (run_except cut_off_env
      (run_try BusAPI cut_off_env (started fresh_service))) = (a, s')"
    by force
  have "a = Inl CancelledError" using run_finally_cancelled [OF c d] rf by simp
  then have "returned (run BusAPI cut_off_env fresh_service) = Inl CancelledError"
    by (simp add: run_def rf)
  with h1 h2 show ?thesis by simp
qed

text \<open>
  C5, the part of \<open>run\<close>. Whatever the run meets (success, an error, a cancellation, calls
  of \<open>stop()\<close> at any await), the flag \<open>is_running\<close> is false when \<open>run\<close> is left.
\<close>

lemma run_clears_flag: "is_running (final (run f env s)) = False"
  using run_not_running [of f env s] by simp

section \<open>Properties of the session coordinator\<close>

text \<open>
  C10. A message whose \<open>type\<close> is none of \<open>start_agent\<close>, \<open>stop_agent\<close> and \<open>run_api\<close>
  (or is missing) is handled without an exception, so the receive loop goes on, and
  leaves the whole session as it was: nothing is sent, no task is made, and the held
  services and task handles are the same.
\<close>

theorem unknown_message_ignored:
  assumes "map_of msg ''type'' \<noteq> Some (PStr ''start_agent'')"
    and "map_of msg ''type'' \<noteq> Some (PStr ''stop_agent'')"
    and "map_of msg ''type'' \<noteq> Some (PStr ''run_api'')"
  shows "handle_message clock met msg w = Inr w"
  using assms by (simp add: handle_message_def Let_def)

theorem unknown_message_ignored_witness:
  "map_of [(''type'', PStr ''ping'')] ''type'' \<noteq> Some (PStr ''start_agent'')
   \<and> map_of [(''type'', PStr ''ping'')] ''type'' \<noteq> Some (PStr ''stop_agent'')
   \<and> map_of [(''type'', PStr ''ping'')] ''type'' \<noteq> Some (PStr ''run_api'')
   \<and> handle_message (\<lambda>n. 0) calm_env [(''type'', PStr ''ping'')] agent_world = Inr agent_world"
proof -
  have h1: "map_of [(''type'', PStr ''ping'')] ''type'' \<noteq> Some (PStr ''start_agent'')"
    and h2: "map_of [(''type'', PStr ''ping'')] ''type'' \<noteq> Some (PStr ''stop_agent'')"
    and h3: "map_of [(''type'', PStr ''ping'')] ''type'' \<noteq> Some (PStr ''run_api'')"
    by simp_all
  from unknown_message_ignored [OF h1 h2 h3] h1 h2 h3 show ?thesis by blast
qed


lemma agent_world_active: "agent_active agent_world"
  by (simp add: agent_active_def agent_world_def task_starts_def start_agent_def
      create_task_def new_world_def Let_def)

lemma api_world_active: "api_active api_world"
  by (simp add: api_active_def api_world_def task_starts_def run_api_def send_json_def
      create_task_def new_world_def flow_of_def started_def new_service_def Let_def)



text \<open>
  Two \<open>run_api\<close> commands handled in the same way start two jobs, each on a service of
  its own; the handler holds the second.
\<close>

lemma double_run_api_runs_both:
  "\<not> api_active (run_api (\<lambda>n. 0) (PStr ''buses'') new_world)
   \<and> length (sent raced_api_world) = 2
   \<and> map phase (tasks raced_api_world) = [Running, Running]
   \<and> map runs_on (tasks raced_api_world) = [Some 0, Some 1]
   \<and> is_running (apis raced_api_world 0) \<and> is_running (apis raced_api_world 1)
   \<and> api_service (hnd raced_api_world) = Some 1"
  by (simp add: raced_api_world_def task_starts_def run_api_def create_task_def
      new_world_def api_active_def send_json_def flow_of_def started_def new_service_def
      Let_def)

lemma settle_frame:
  "sent (settle met h w) = sent w"
  "agents (settle met h w) = agents w"
  by (simp_all add: settle_def cancel_and_await_def
      split: phase.splits task_body.splits option.splits)

lemma settle_clears: "is_running (apis (settle met h w) r) \<Longrightarrow> is_running (apis w r)"
  using run_not_running
  by (auto simp: settle_def cancel_and_await_def
      split: if_splits phase.splits task_body.splits option.splits)

lemma stop_services_frame: "sent (stop_services met w) = sent w"
  by (simp add: stop_services_def Let_def split: option.splits)

lemma stop_services_agent:
  "agent_service (hnd w) = Some r \<Longrightarrow> \<not> is_running (agents (stop_services met w) r)"
  by (simp add: stop_services_def Let_def split: option.splits)

lemma stop_services_api:
  "api_service (hnd w) = Some r \<Longrightarrow> \<not> is_running (apis (stop_services met w) r)"
  by (simp add: stop_services_def Let_def stop_def split: option.splits)

text \<open>
  C5. On every path through \<open>run\<close> (success, an error, a cancellation, calls of \<open>stop()\<close>
  at any await) the flag \<open>is_running\<close> is false when \<open>run\<close> is left. And the stop command,
  which calls \<open>stop()\<close> on the held services, cancels the tasks and awaits them, leaves
  the held agent service and the held API service with the flag cleared and sends, as
  its last act, the status message \<open>stopped\<close>.
\<close>

theorem stop_clears_flag_and_reports:
  "\<not> is_running (final (run f env s))
   \<and> sent (stop_agent clock met w)
       = sent w @ [WebSocketMessage STATUS (StatusPayload ''stopped'' (Plain ''Stopped by user''))
                     (clock (length (sent w)))]
   \<and> (\<forall>r. agent_service (hnd w) = Some r \<longrightarrow> \<not> is_running (agents (stop_agent clock met w) r))
   \<and> (\<forall>r. api_service (hnd w) = Some r \<longrightarrow> \<not> is_running (apis (stop_agent clock met w) r))"
proof (intro conjI allI impI)
  show "\<not> is_running (final (run f env s))" by (rule run_not_running)
next
  show "sent (stop_agent clock met w)
       = sent w @ [WebSocketMessage STATUS (StatusPayload ''stopped'' (Plain ''Stopped by user''))
                     (clock (length (sent w)))]"
    by (simp add: stop_agent_def send_json_def Let_def settle_frame stop_services_frame)
next
  fix r assume "agent_service (hnd w) = Some r"
  then show "\<not> is_running (agents (stop_agent clock met w) r)"
    by (simp add: stop_agent_def send_json_def Let_def settle_frame stop_services_agent)
next
  fix r assume h: "api_service (hnd w) = Some r"
  let ?w1 = "stop_services met w"
  let ?w2 = "settle met (agent_task (hnd ?w1)) ?w1"
  let ?w3 = "settle met (api_task (hnd ?w2)) ?w2"
  have "\<not> is_running (apis ?w1 r)" using h by (rule stop_services_api)
  then have "\<not> is_running (apis ?w2 r)" using settle_clears by blast
  then have "\<not> is_running (apis ?w3 r)" using settle_clears by blast
  then show "\<not> is_running (apis (stop_agent clock met w) r)"
    by (simp add: stop_agent_def send_json_def Let_def)
qed

theorem stop_clears_flag_and_reports_witness:
  "api_service (hnd api_world) = Some 0 \<and> is_running (apis api_world 0)
   \<and> \<not> is_running (apis (stop_agent (\<lambda>n. 0) cancelled_env api_world) 0)
   \<and> sent (stop_agent (\<lambda>n. 0) cancelled_env api_world)
       = sent api_world @ [WebSocketMessage STATUS
            (StatusPayload ''stopped'' (Plain ''Stopped by user'')) (real (length (sent api_world)) * 0)]"
proof -
  have h: "api_service (hnd api_world) = Some 0" and a: "is_running (apis api_world 0)"
    by (simp_all add: api_world_def task_starts_def run_api_def send_json_def
        create_task_def new_world_def flow_of_def started_def new_service_def Let_def
        api_active_def)
  from stop_clears_flag_and_reports [of BusAPI calm_env fresh_service "\<lambda>n. 0" cancelled_env api_world]
  have "sent (stop_agent (\<lambda>n. 0) cancelled_env api_world)
       = sent api_world @ [WebSocketMessage STATUS
            (StatusPayload ''stopped'' (Plain ''Stopped by user'')) 0]"
    and "\<forall>r. api_service (hnd api_world) = Some r
          \<longrightarrow> \<not> is_running (apis (stop_agent (\<lambda>n. 0) cancelled_env api_world) r)"
    by blast+
  with h a show ?thesis by simp
qed

end
